theory Spec2Isabelle
  imports Main "HOL-Library.Sublist" "HOL-Library.Signed_Division" "HOL-Library.Word"
begin

unbundle bit_operations_syntax

section \<open>Strings of the source\<close>

text \<open>
  A Go string is a sequence of bytes, and so is a \<^typ>\<open>string\<close> here: a list of 8-bit
  characters. The literals of the two Go files that are not plain ASCII are listed below as
  the UTF-8 bytes the compiler stores for them, each with the line it comes from and an
  English gloss.
\<close>

text \<open>notifier.go:38, the information sign with variation selector.\<close>
definition icon_info :: string where
  "icon_info = [CHR 0xE2, CHR 0x84, CHR 0xB9, CHR 0xEF, CHR 0xB8, CHR 0x8F]"

text \<open>notifier.go:40, the warning sign with variation selector.\<close>
definition icon_warning :: string where
  "icon_warning = [CHR 0xE2, CHR 0x9A, CHR 0xA0, CHR 0xEF, CHR 0xB8, CHR 0x8F]"

text \<open>notifier.go:42, the rotating-light emoji.\<close>
definition icon_critical :: string where
  "icon_critical = [CHR 0xF0, CHR 0x9F, CHR 0x9A, CHR 0xA8]"

text \<open>notifier.go:49, 'CPU alert'.\<close>
definition name_cpu :: string where
  "name_cpu = ''CPU'' @ [CHR 0xE5, CHR 0x91, CHR 0x8A, CHR 0xE8, CHR 0xAD, CHR 0xA6]"

text \<open>notifier.go:51, 'memory alert'.\<close>
definition name_memory :: string where
  "name_memory = [CHR 0xE5, CHR 0x86, CHR 0x85, CHR 0xE5, CHR 0xAD, CHR 0x98, CHR 0xE5,
     CHR 0x91, CHR 0x8A, CHR 0xE8, CHR 0xAD, CHR 0xA6]"

text \<open>notifier.go:53, 'disk alert'.\<close>
definition name_disk :: string where
  "name_disk = [CHR 0xE7, CHR 0xA3, CHR 0x81, CHR 0xE7, CHR 0x9B, CHR 0x98, CHR 0xE5,
     CHR 0x91, CHR 0x8A, CHR 0xE8, CHR 0xAD, CHR 0xA6]"

text \<open>notifier.go:55, 'network disconnected alert'.\<close>
definition name_network :: string where
  "name_network = [CHR 0xE7, CHR 0xBD, CHR 0x91, CHR 0xE7, CHR 0xBB, CHR 0x9C,
     CHR 0xE6, CHR 0x96, CHR 0xAD, CHR 0xE5, CHR 0xBC, CHR 0x80, CHR 0xE5, CHR 0x91,
     CHR 0x8A, CHR 0xE8, CHR 0xAD, CHR 0xA6]"

text \<open>notifier.go:57, 'certificate alert'.\<close>
definition name_cert :: string where
  "name_cert = [CHR 0xE8, CHR 0xAF, CHR 0x81, CHR 0xE4, CHR 0xB9, CHR 0xA6, CHR 0xE5,
     CHR 0x91, CHR 0x8A, CHR 0xE8, CHR 0xAD, CHR 0xA6]"

text \<open>notifier.go:59, 'service alert'.\<close>
definition name_service :: string where
  "name_service = [CHR 0xE6, CHR 0x9C, CHR 0x8D, CHR 0xE5, CHR 0x8A, CHR 0xA1,
     CHR 0xE5, CHR 0x91, CHR 0x8A, CHR 0xE8, CHR 0xAD, CHR 0xA6]"

text \<open>notifier.go:66, 'agent: '.\<close>
definition lbl_agent :: string where
  "lbl_agent = [CHR 0xE6, CHR 0x8E, CHR 0xA2, CHR 0xE9, CHR 0x92, CHR 0x88] @ '': ''"

text \<open>notifier.go:67, 'host: '.\<close>
definition lbl_host :: string where
  "lbl_host = [CHR 0xE4, CHR 0xB8, CHR 0xBB, CHR 0xE6, CHR 0x9C, CHR 0xBA] @ '': ''"

text \<open>notifier.go:69, 'alert type: '.\<close>
definition lbl_alert_type :: string where
  "lbl_alert_type = [CHR 0xE5, CHR 0x91, CHR 0x8A, CHR 0xE8, CHR 0xAD, CHR 0xA6,
     CHR 0xE7, CHR 0xB1, CHR 0xBB, CHR 0xE5, CHR 0x9E, CHR 0x8B] @ '': ''"

text \<open>notifier.go:70, 'alert message: '.\<close>
definition lbl_alert_message :: string where
  "lbl_alert_message = [CHR 0xE5, CHR 0x91, CHR 0x8A, CHR 0xE8, CHR 0xAD, CHR 0xA6,
     CHR 0xE6, CHR 0xB6, CHR 0x88, CHR 0xE6, CHR 0x81, CHR 0xAF] @ '': ''"

text \<open>notifier.go:71, 'threshold: '.\<close>
definition lbl_threshold :: string where
  "lbl_threshold = [CHR 0xE9, CHR 0x98, CHR 0x88, CHR 0xE5, CHR 0x80, CHR 0xBC] @
     '': ''"

text \<open>notifier.go:72, 'current value: '.\<close>
definition lbl_current :: string where
  "lbl_current = [CHR 0xE5, CHR 0xBD, CHR 0x93, CHR 0xE5, CHR 0x89, CHR 0x8D, CHR 0xE5,
     CHR 0x80, CHR 0xBC] @ '': ''"

text \<open>notifier.go:73, 'fired at: '.\<close>
definition lbl_fired_at :: string where
  "lbl_fired_at = [CHR 0xE8, CHR 0xA7, CHR 0xA6, CHR 0xE5, CHR 0x8F, CHR 0x91,
     CHR 0xE6, CHR 0x97, CHR 0xB6, CHR 0xE9, CHR 0x97, CHR 0xB4] @ '': ''"

text \<open>notifier.go:89, the check-mark emoji.\<close>
definition icon_resolved :: string where
  "icon_resolved = [CHR 0xE2, CHR 0x9C, CHR 0x85]"

text \<open>notifier.go:89, 'recovered'.\<close>
definition lbl_recovered :: string where
  "lbl_recovered = [CHR 0xE5, CHR 0xB7, CHR 0xB2, CHR 0xE6, CHR 0x81, CHR 0xA2,
     CHR 0xE5, CHR 0xA4, CHR 0x8D]"

text \<open>notifier.go:95, 'recovered at: '.\<close>
definition lbl_resolved_at :: string where
  "lbl_resolved_at = [CHR 0xE6, CHR 0x81, CHR 0xA2, CHR 0xE5, CHR 0xA4, CHR 0x8D,
     CHR 0xE6, CHR 0x97, CHR 0xB6, CHR 0xE9, CHR 0x97, CHR 0xB4] @ '': ''"

text \<open>notifier.go:208, 'serialising the request body failed: '.\<close>
definition msg_marshal_failed :: string where
  "msg_marshal_failed = [CHR 0xE5, CHR 0xBA, CHR 0x8F, CHR 0xE5, CHR 0x88, CHR 0x97,
     CHR 0xE5, CHR 0x8C, CHR 0x96, CHR 0xE8, CHR 0xAF, CHR 0xB7, CHR 0xE6, CHR 0xB1,
     CHR 0x82, CHR 0xE4, CHR 0xBD, CHR 0x93, CHR 0xE5, CHR 0xA4, CHR 0xB1, CHR 0xE8,
     CHR 0xB4, CHR 0xA5] @ '': ''"

text \<open>notifier.go:213, 'creating the request failed: '.\<close>
definition msg_new_request_failed :: string where
  "msg_new_request_failed = [CHR 0xE5, CHR 0x88, CHR 0x9B, CHR 0xE5, CHR 0xBB,
     CHR 0xBA, CHR 0xE8, CHR 0xAF, CHR 0xB7, CHR 0xE6, CHR 0xB1, CHR 0x82, CHR 0xE5,
     CHR 0xA4, CHR 0xB1, CHR 0xE8, CHR 0xB4, CHR 0xA5] @ '': ''"

text \<open>notifier.go:224, 'sending the request failed: '.\<close>
definition msg_do_failed :: string where
  "msg_do_failed = [CHR 0xE5, CHR 0x8F, CHR 0x91, CHR 0xE9, CHR 0x80, CHR 0x81,
     CHR 0xE8, CHR 0xAF, CHR 0xB7, CHR 0xE6, CHR 0xB1, CHR 0x82, CHR 0xE5, CHR 0xA4,
     CHR 0xB1, CHR 0xE8, CHR 0xB4, CHR 0xA5] @ '': ''"

text \<open>notifier.go:232, 'request failed, status code: '.\<close>
definition msg_status_failed :: string where
  "msg_status_failed = [CHR 0xE8, CHR 0xAF, CHR 0xB7, CHR 0xE6, CHR 0xB1, CHR 0x82,
     CHR 0xE5, CHR 0xA4, CHR 0xB1, CHR 0xE8, CHR 0xB4, CHR 0xA5, CHR 0xEF, CHR 0xBC,
     CHR 0x8C, CHR 0xE7, CHR 0x8A, CHR 0xB6, CHR 0xE6, CHR 0x80, CHR 0x81, CHR 0xE7,
     CHR 0xA0, CHR 0x81] @ '': ''"

text \<open>notifier.go:232, ', response: '.\<close>
definition msg_status_response :: string where
  "msg_status_response = '', '' @ [CHR 0xE5, CHR 0x93, CHR 0x8D, CHR 0xE5, CHR 0xBA,
     CHR 0x94] @ '': ''"

text \<open>notifier.go:235, 'notification sent'.\<close>
definition log_sent_ok :: string where
  "log_sent_ok = [CHR 0xE9, CHR 0x80, CHR 0x9A, CHR 0xE7, CHR 0x9F, CHR 0xA5, CHR 0xE5,
     CHR 0x8F, CHR 0x91, CHR 0xE9, CHR 0x80, CHR 0x81, CHR 0xE6, CHR 0x88, CHR 0x90,
     CHR 0xE5, CHR 0x8A, CHR 0x9F]"

text \<open>notifier.go:243, 'DingTalk config lacks secretKey'.\<close>
definition msg_dingtalk_no_key :: string where
  "msg_dingtalk_no_key = [CHR 0xE9, CHR 0x92, CHR 0x89, CHR 0xE9, CHR 0x92, CHR 0x89,
     CHR 0xE9, CHR 0x85, CHR 0x8D, CHR 0xE7, CHR 0xBD, CHR 0xAE, CHR 0xE7, CHR 0xBC,
     CHR 0xBA, CHR 0xE5, CHR 0xB0, CHR 0x91] @ '' secretKey''"

text \<open>notifier.go:259, 'WeCom config lacks secretKey'.\<close>
definition msg_wecom_no_key :: string where
  "msg_wecom_no_key = [CHR 0xE4, CHR 0xBC, CHR 0x81, CHR 0xE4, CHR 0xB8, CHR 0x9A,
     CHR 0xE5, CHR 0xBE, CHR 0xAE, CHR 0xE4, CHR 0xBF, CHR 0xA1, CHR 0xE9, CHR 0x85,
     CHR 0x8D, CHR 0xE7, CHR 0xBD, CHR 0xAE, CHR 0xE7, CHR 0xBC, CHR 0xBA, CHR 0xE5,
     CHR 0xB0, CHR 0x91] @ '' secretKey''"

text \<open>notifier.go:272, 'Feishu config lacks secretKey'.\<close>
definition msg_feishu_no_key :: string where
  "msg_feishu_no_key = [CHR 0xE9, CHR 0xA3, CHR 0x9E, CHR 0xE4, CHR 0xB9, CHR 0xA6,
     CHR 0xE9, CHR 0x85, CHR 0x8D, CHR 0xE7, CHR 0xBD, CHR 0xAE, CHR 0xE7, CHR 0xBC,
     CHR 0xBA, CHR 0xE5, CHR 0xB0, CHR 0x91] @ '' secretKey''"

text \<open>notifier.go:285, 'custom webhook config lacks url'.\<close>
definition msg_webhook_no_url :: string where
  "msg_webhook_no_url = [CHR 0xE8, CHR 0x87, CHR 0xAA, CHR 0xE5, CHR 0xAE, CHR 0x9A,
     CHR 0xE4, CHR 0xB9, CHR 0x89] @ ''Webhook'' @ [CHR 0xE9, CHR 0x85, CHR 0x8D,
     CHR 0xE7, CHR 0xBD, CHR 0xAE, CHR 0xE7, CHR 0xBC, CHR 0xBA, CHR 0xE5, CHR 0xB0,
     CHR 0x91] @ '' url''"

text \<open>notifier.go:294, 'notification channel is disabled'.\<close>
definition msg_channel_disabled :: string where
  "msg_channel_disabled = [CHR 0xE9, CHR 0x80, CHR 0x9A, CHR 0xE7, CHR 0x9F, CHR 0xA5,
     CHR 0xE6, CHR 0xB8, CHR 0xA0, CHR 0xE9, CHR 0x81, CHR 0x93, CHR 0xE5, CHR 0xB7,
     CHR 0xB2, CHR 0xE7, CHR 0xA6, CHR 0x81, CHR 0xE7, CHR 0x94, CHR 0xA8]"

text \<open>notifier.go:297, 'sending notification'.\<close>
definition log_send :: string where
  "log_send = [CHR 0xE5, CHR 0x8F, CHR 0x91, CHR 0xE9, CHR 0x80, CHR 0x81, CHR 0xE9,
     CHR 0x80, CHR 0x9A, CHR 0xE7, CHR 0x9F, CHR 0xA5]"

text \<open>notifier.go:315, 'email notification is not implemented yet'.\<close>
definition msg_email_unimplemented :: string where
  "msg_email_unimplemented = [CHR 0xE9, CHR 0x82, CHR 0xAE, CHR 0xE4, CHR 0xBB,
     CHR 0xB6, CHR 0xE9, CHR 0x80, CHR 0x9A, CHR 0xE7, CHR 0x9F, CHR 0xA5, CHR 0xE6,
     CHR 0x9A, CHR 0x82, CHR 0xE6, CHR 0x9C, CHR 0xAA, CHR 0xE5, CHR 0xAE, CHR 0x9E,
     CHR 0xE7, CHR 0x8E, CHR 0xB0]"

text \<open>notifier.go:317, 'unsupported notification channel type: '.\<close>
definition msg_unsupported_type :: string where
  "msg_unsupported_type = [CHR 0xE4, CHR 0xB8, CHR 0x8D, CHR 0xE6, CHR 0x94, CHR 0xAF,
     CHR 0xE6, CHR 0x8C, CHR 0x81, CHR 0xE7, CHR 0x9A, CHR 0x84, CHR 0xE9, CHR 0x80,
     CHR 0x9A, CHR 0xE7, CHR 0x9F, CHR 0xA5, CHR 0xE6, CHR 0xB8, CHR 0xA0, CHR 0xE9,
     CHR 0x81, CHR 0x93, CHR 0xE7, CHR 0xB1, CHR 0xBB, CHR 0xE5, CHR 0x9E, CHR 0x8B] @
     '': ''"

text \<open>notifier.go:327, 'sending notification failed'.\<close>
definition log_send_failed :: string where
  "log_send_failed = [CHR 0xE5, CHR 0x8F, CHR 0x91, CHR 0xE9, CHR 0x80, CHR 0x81,
     CHR 0xE9, CHR 0x80, CHR 0x9A, CHR 0xE7, CHR 0x9F, CHR 0xA5, CHR 0xE5, CHR 0xA4,
     CHR 0xB1, CHR 0xE8, CHR 0xB4, CHR 0xA5]"

text \<open>notifier.go:336, 'some notifications failed: '.\<close>
definition msg_partial_failure :: string where
  "msg_partial_failure = [CHR 0xE9, CHR 0x83, CHR 0xA8, CHR 0xE5, CHR 0x88, CHR 0x86,
     CHR 0xE9, CHR 0x80, CHR 0x9A, CHR 0xE7, CHR 0x9F, CHR 0xA5, CHR 0xE5, CHR 0x8F,
     CHR 0x91, CHR 0xE9, CHR 0x80, CHR 0x81, CHR 0xE5, CHR 0xA4, CHR 0xB1, CHR 0xE8,
     CHR 0xB4, CHR 0xA5] @ '': ''"


text \<open>property_handler.go:49, 'parsing the property value failed'.\<close>
definition txt_parse_failed :: string where
  "txt_parse_failed = [CHR 0xE8, CHR 0xA7, CHR 0xA3, CHR 0xE6, CHR 0x9E, CHR 0x90,
     CHR 0xE5, CHR 0xB1, CHR 0x9E, CHR 0xE6, CHR 0x80, CHR 0xA7, CHR 0xE5, CHR 0x80,
     CHR 0xBC, CHR 0xE5, CHR 0xA4, CHR 0xB1, CHR 0xE8, CHR 0xB4, CHR 0xA5]"




text \<open>property_handler.go:95, 'deleting the property failed'.\<close>
definition txt_delete_failed :: string where
  "txt_delete_failed = [CHR 0xE5, CHR 0x88, CHR 0xA0, CHR 0xE9, CHR 0x99, CHR 0xA4,
     CHR 0xE5, CHR 0xB1, CHR 0x9E, CHR 0xE6, CHR 0x80, CHR 0xA7, CHR 0xE5, CHR 0xA4,
     CHR 0xB1, CHR 0xE8, CHR 0xB4, CHR 0xA5]"

text \<open>property_handler.go:102, 'deleted successfully'.\<close>
definition txt_delete_ok :: string where
  "txt_delete_ok = [CHR 0xE5, CHR 0x88, CHR 0xA0, CHR 0xE9, CHR 0x99, CHR 0xA4,
     CHR 0xE6, CHR 0x88, CHR 0x90, CHR 0xE5, CHR 0x8A, CHR 0x9F]"

text \<open>property_handler.go:113, 'system configuration'.\<close>
definition txt_system_config :: string where
  "txt_system_config = [CHR 0xE7, CHR 0xB3, CHR 0xBB, CHR 0xE7, CHR 0xBB, CHR 0x9F,
     CHR 0xE9, CHR 0x85, CHR 0x8D, CHR 0xE7, CHR 0xBD, CHR 0xAE]"

text \<open>property_handler.go:116, the Chinese system name.\<close>
definition txt_pika_zh :: string where
  "txt_pika_zh = [CHR 0xE7, CHR 0x9A, CHR 0xAE, CHR 0xE5, CHR 0x8D, CHR 0xA1, CHR 0xE7,
     CHR 0x9B, CHR 0x91, CHR 0xE6, CHR 0x8E, CHR 0xA7]"

text \<open>property_handler.go:145, 'missing channel type parameter'.\<close>
definition txt_missing_type :: string where
  "txt_missing_type = [CHR 0xE7, CHR 0xBC, CHR 0xBA, CHR 0xE5, CHR 0xB0, CHR 0x91,
     CHR 0xE6, CHR 0xB8, CHR 0xA0, CHR 0xE9, CHR 0x81, CHR 0x93, CHR 0xE7, CHR 0xB1,
     CHR 0xBB, CHR 0xE5, CHR 0x9E, CHR 0x8B, CHR 0xE5, CHR 0x8F, CHR 0x82, CHR 0xE6,
     CHR 0x95, CHR 0xB0]"

text \<open>property_handler.go:160, 'getting the notification channel config failed'.\<close>
definition txt_channels_failed :: string where
  "txt_channels_failed = [CHR 0xE8, CHR 0x8E, CHR 0xB7, CHR 0xE5, CHR 0x8F, CHR 0x96,
     CHR 0xE9, CHR 0x80, CHR 0x9A, CHR 0xE7, CHR 0x9F, CHR 0xA5, CHR 0xE6, CHR 0xB8,
     CHR 0xA0, CHR 0xE9, CHR 0x81, CHR 0x93, CHR 0xE9, CHR 0x85, CHR 0x8D, CHR 0xE7,
     CHR 0xBD, CHR 0xAE, CHR 0xE5, CHR 0xA4, CHR 0xB1, CHR 0xE8, CHR 0xB4, CHR 0xA5]"

text \<open>property_handler.go:182, 'notification channel does not exist, configure it first'.\<close>
definition txt_channel_absent :: string where
  "txt_channel_absent = [CHR 0xE9, CHR 0x80, CHR 0x9A, CHR 0xE7, CHR 0x9F, CHR 0xA5,
     CHR 0xE6, CHR 0xB8, CHR 0xA0, CHR 0xE9, CHR 0x81, CHR 0x93, CHR 0xE4, CHR 0xB8,
     CHR 0x8D, CHR 0xE5, CHR 0xAD, CHR 0x98, CHR 0xE5, CHR 0x9C, CHR 0xA8, CHR 0xEF,
     CHR 0xBC, CHR 0x8C, CHR 0xE8, CHR 0xAF, CHR 0xB7, CHR 0xE5, CHR 0x85, CHR 0x88,
     CHR 0xE9, CHR 0x85, CHR 0x8D, CHR 0xE7, CHR 0xBD, CHR 0xAE]"

text \<open>property_handler.go:188, 'notification channel is not enabled'.\<close>
definition txt_channel_not_enabled :: string where
  "txt_channel_not_enabled = [CHR 0xE9, CHR 0x80, CHR 0x9A, CHR 0xE7, CHR 0x9F,
     CHR 0xA5, CHR 0xE6, CHR 0xB8, CHR 0xA0, CHR 0xE9, CHR 0x81, CHR 0x93, CHR 0xE6,
     CHR 0x9C, CHR 0xAA, CHR 0xE5, CHR 0x90, CHR 0xAF, CHR 0xE7, CHR 0x94, CHR 0xA8]"

text \<open>property_handler.go:193, 'this is a test notification message'.\<close>
definition txt_test_message :: string where
  "txt_test_message = [CHR 0xE8, CHR 0xBF, CHR 0x99, CHR 0xE6, CHR 0x98, CHR 0xAF,
     CHR 0xE4, CHR 0xB8, CHR 0x80, CHR 0xE6, CHR 0x9D, CHR 0xA1, CHR 0xE6, CHR 0xB5,
     CHR 0x8B, CHR 0xE8, CHR 0xAF, CHR 0x95, CHR 0xE9, CHR 0x80, CHR 0x9A, CHR 0xE7,
     CHR 0x9F, CHR 0xA5, CHR 0xE6, CHR 0xB6, CHR 0x88, CHR 0xE6, CHR 0x81, CHR 0xAF]"

text \<open>property_handler.go:207, 'unsupported notification channel type'.\<close>
definition txt_unsupported :: string where
  "txt_unsupported = [CHR 0xE4, CHR 0xB8, CHR 0x8D, CHR 0xE6, CHR 0x94, CHR 0xAF,
     CHR 0xE6, CHR 0x8C, CHR 0x81, CHR 0xE7, CHR 0x9A, CHR 0x84, CHR 0xE9, CHR 0x80,
     CHR 0x9A, CHR 0xE7, CHR 0x9F, CHR 0xA5, CHR 0xE6, CHR 0xB8, CHR 0xA0, CHR 0xE9,
     CHR 0x81, CHR 0x93, CHR 0xE7, CHR 0xB1, CHR 0xBB, CHR 0xE5, CHR 0x9E, CHR 0x8B]"

text \<open>property_handler.go:212, 'sending the test notification failed'.\<close>
definition txt_test_failed :: string where
  "txt_test_failed = [CHR 0xE5, CHR 0x8F, CHR 0x91, CHR 0xE9, CHR 0x80, CHR 0x81,
     CHR 0xE6, CHR 0xB5, CHR 0x8B, CHR 0xE8, CHR 0xAF, CHR 0x95, CHR 0xE9, CHR 0x80,
     CHR 0x9A, CHR 0xE7, CHR 0x9F, CHR 0xA5, CHR 0xE5, CHR 0xA4, CHR 0xB1, CHR 0xE8,
     CHR 0xB4, CHR 0xA5]"

text \<open>property_handler.go:214, 'sending the test notification failed: '.\<close>
definition txt_test_failed_prefix :: string where
  "txt_test_failed_prefix = [CHR 0xE5, CHR 0x8F, CHR 0x91, CHR 0xE9, CHR 0x80,
     CHR 0x81, CHR 0xE6, CHR 0xB5, CHR 0x8B, CHR 0xE8, CHR 0xAF, CHR 0x95, CHR 0xE9,
     CHR 0x80, CHR 0x9A, CHR 0xE7, CHR 0x9F, CHR 0xA5, CHR 0xE5, CHR 0xA4, CHR 0xB1,
     CHR 0xE8, CHR 0xB4, CHR 0xA5] @ '': ''"

text \<open>property_handler.go:219, 'test notification sent'.\<close>
definition txt_test_sent :: string where
  "txt_test_sent = [CHR 0xE6, CHR 0xB5, CHR 0x8B, CHR 0xE8, CHR 0xAF, CHR 0x95,
     CHR 0xE9, CHR 0x80, CHR 0x9A, CHR 0xE7, CHR 0x9F, CHR 0xA5, CHR 0xE5, CHR 0xB7,
     CHR 0xB2, CHR 0xE5, CHR 0x8F, CHR 0x91, CHR 0xE9, CHR 0x80, CHR 0x81]"

section \<open>Formatting and encoding helpers of the Go library\<close>

subsection \<open>The verb \<open>%d\<close> of package fmt\<close>

definition digit_char :: "int \<Rightarrow> char" where
  "digit_char d = ''0123456789'' ! nat d"

function digits :: "int \<Rightarrow> string" where
  "digits n = (if n < 10 then [digit_char n] else digits (n div 10) @ [digit_char (n mod 10)])"
  by pat_completeness auto
termination
  by (relation "measure nat") auto

declare digits.simps [simp del]

text \<open>Decimal rendering of a signed integer, with a minus sign for negative values.\<close>

definition fmt_d :: "int \<Rightarrow> string" where
  "fmt_d n = (if n < 0 then CHR ''-'' # digits (- n) else digits n)"

subsection \<open>\<open>base64.StdEncoding.EncodeToString\<close>\<close>

definition encodeStd :: string where
  "encodeStd = ''ABCDEFGHIJKLMNOPQRSTUVWXYZabcdefghijklmnopqrstuvwxyz0123456789+/''"

definition b64 :: "nat \<Rightarrow> char" where
  "b64 i = encodeStd ! i"

text \<open>
  Three input bytes give four output characters; a final group of one or two bytes is
  padded with \<open>=\<close> (RFC 4648, section 4), as the standard encoding of Go does.
\<close>

fun EncodeToString :: "string \<Rightarrow> string" where
  "EncodeToString (a # b # c # rest) =
     (let x = (of_char a :: nat); y = (of_char b :: nat); z = (of_char c :: nat) in
        [b64 (x div 4), b64 ((x mod 4) * 16 + y div 16),
         b64 ((y mod 16) * 4 + z div 64), b64 (z mod 64)])
     @ EncodeToString rest"
| "EncodeToString [a, b] =
     (let x = (of_char a :: nat); y = (of_char b :: nat) in
        [b64 (x div 4), b64 ((x mod 4) * 16 + y div 16), b64 ((y mod 16) * 4), CHR ''=''])"
| "EncodeToString [a] =
     (let x = (of_char a :: nat) in
        [b64 (x div 4), b64 ((x mod 4) * 16), CHR ''='', CHR ''=''])"
| "EncodeToString [] = []"

subsection \<open>SHA-256 and HMAC\<close>

text \<open>
  The hash of \<open>crypto/sha256\<close> (FIPS 180-4) on 32-bit words, and the keyed hash of
  \<open>crypto/hmac\<close> over it (RFC 2104), both on byte strings.
\<close>

definition sha256_K :: "32 word list" where
  "sha256_K = [
   0x428A2F98, 0x71374491, 0xB5C0FBCF, 0xE9B5DBA5, 0x3956C25B, 0x59F111F1, 0x923F82A4, 0xAB1C5ED5,
   0xD807AA98, 0x12835B01, 0x243185BE, 0x550C7DC3, 0x72BE5D74, 0x80DEB1FE, 0x9BDC06A7, 0xC19BF174,
   0xE49B69C1, 0xEFBE4786, 0x0FC19DC6, 0x240CA1CC, 0x2DE92C6F, 0x4A7484AA, 0x5CB0A9DC, 0x76F988DA,
   0x983E5152, 0xA831C66D, 0xB00327C8, 0xBF597FC7, 0xC6E00BF3, 0xD5A79147, 0x06CA6351, 0x14292967,
   0x27B70A85, 0x2E1B2138, 0x4D2C6DFC, 0x53380D13, 0x650A7354, 0x766A0ABB, 0x81C2C92E, 0x92722C85,
   0xA2BFE8A1, 0xA81A664B, 0xC24B8B70, 0xC76C51A3, 0xD192E819, 0xD6990624, 0xF40E3585, 0x106AA070,
   0x19A4C116, 0x1E376C08, 0x2748774C, 0x34B0BCB5, 0x391C0CB3, 0x4ED8AA4A, 0x5B9CCA4F, 0x682E6FF3,
   0x748F82EE, 0x78A5636F, 0x84C87814, 0x8CC70208, 0x90BEFFFA, 0xA4506CEB, 0xBEF9A3F7, 0xC67178F2]"

definition sha256_init :: "32 word list" where
  "sha256_init = [0x6A09E667, 0xBB67AE85, 0x3C6EF372, 0xA54FF53A,
                  0x510E527F, 0x9B05688C, 0x1F83D9AB, 0x5BE0CD19]"

definition be_bytes64 :: "64 word \<Rightarrow> string" where
  "be_bytes64 n = map (\<lambda>i. char_of (unat (drop_bit (8 * (7 - i)) n))) [0..<8]"

definition sha256_pad :: "string \<Rightarrow> string" where
  "sha256_pad m =
     m @ [CHR 0x80] @ replicate ((55 + 64 - length m mod 64) mod 64) (CHR 0x00)
       @ be_bytes64 (8 * of_nat (length m))"

fun words_of :: "string \<Rightarrow> 32 word list" where
  "words_of (a # b # c # d # r) =
     (push_bit 24 (of_char a) OR push_bit 16 (of_char b) OR push_bit 8 (of_char c) OR of_char d)
     # words_of r"
| "words_of _ = []"

fun chunks :: "nat \<Rightarrow> 'a list \<Rightarrow> 'a list list" where
  "chunks n [] = []"
| "chunks n xs = (if n = 0 then [xs] else take n xs # chunks n (drop n xs))"

fun sha256_schedule :: "nat \<Rightarrow> 32 word list \<Rightarrow> 32 word list" where
  "sha256_schedule 0 w = w"
| "sha256_schedule (Suc n) w =
     (let l = length w; x = w ! (l - 15); y = w ! (l - 2);
          s0 = word_rotr 7 x XOR word_rotr 18 x XOR drop_bit 3 x;
          s1 = word_rotr 17 y XOR word_rotr 19 y XOR drop_bit 10 y
      in sha256_schedule n (w @ [w ! (l - 16) + s0 + w ! (l - 7) + s1]))"

fun sha256_round :: "32 word list \<Rightarrow> 32 word \<times> 32 word \<Rightarrow> 32 word list" where
  "sha256_round [a, b, c, d, e, f, g, h] (k, w) =
     (let S1 = word_rotr 6 e XOR word_rotr 11 e XOR word_rotr 25 e;
          ch = (e AND f) XOR (NOT e AND g);
          t1 = h + S1 + ch + k + w;
          S0 = word_rotr 2 a XOR word_rotr 13 a XOR word_rotr 22 a;
          mj = (a AND b) XOR (a AND c) XOR (b AND c);
          t2 = S0 + mj
      in [t1 + t2, a, b, c, d + t1, e, f, g])"
| "sha256_round s _ = s"

definition sha256_block :: "32 word list \<Rightarrow> string \<Rightarrow> 32 word list" where
  "sha256_block hs block =
     map2 (+) hs (foldl sha256_round hs (zip sha256_K (sha256_schedule 48 (words_of block))))"

definition be_bytes32 :: "32 word \<Rightarrow> string" where
  "be_bytes32 w = [char_of (unat (drop_bit 24 w)), char_of (unat (drop_bit 16 w)),
                   char_of (unat (drop_bit 8 w)), char_of (unat w)]"

definition sha256_Sum256 :: "string \<Rightarrow> string" where
  "sha256_Sum256 m =
     concat (map be_bytes32 (foldl sha256_block sha256_init (chunks 64 (sha256_pad m))))"

definition HMAC_SHA256 :: "string \<Rightarrow> string \<Rightarrow> string" where
  "HMAC_SHA256 key m =
     (let k0 = (if length key > 64 then sha256_Sum256 key else key);
          k = k0 @ replicate (64 - length k0) (CHR 0x00);
          ipad = map (\<lambda>c. char_of (unat ((of_char c :: 8 word) XOR 0x36))) k;
          opad = map (\<lambda>c. char_of (unat ((of_char c :: 8 word) XOR 0x5c))) k
      in sha256_Sum256 (opad @ sha256_Sum256 (ipad @ m)))"

subsection \<open>Counting occurrences of a pattern in a string\<close>

text \<open>The number of positions of \<open>s\<close> at which the pattern \<open>p\<close> starts.\<close>

fun count_sub :: "string \<Rightarrow> string \<Rightarrow> nat" where
  "count_sub p [] = (if p = [] then 1 else 0)"
| "count_sub p (c # cs) = (if prefix p (c # cs) then 1 else 0) + count_sub p cs"

text \<open>Whether \<open>x\<close> is immediately followed by \<open>y\<close> somewhere in a list.\<close>

fun adjacent :: "'a \<Rightarrow> 'a \<Rightarrow> 'a list \<Rightarrow> bool" where
  "adjacent x y (a # b # r) = ((a = x \<and> b = y) \<or> adjacent x y (b # r))"
| "adjacent x y [a] = False"
| "adjacent x y [] = False"

section \<open>Values, errors and the outside world\<close>

text \<open>
  A value of Go's \<open>interface{}\<close> as package encoding/json produces and consumes it.
  The type parameter \<open>'f\<close> stands for \<open>float64\<close>, whose arithmetic is not modelled.
  An object is kept as the list of its entries; \<open>map_of\<close> reads a key.
\<close>

datatype 'f json =
    JNull
  | JBool bool
  | JNum 'f
  | JStr string
  | JArr "'f json list"
  | JObj "(string \<times> 'f json) list"

text \<open>A Go \<open>error\<close> value, identified with the text its \<open>Error()\<close> method returns;
  a function returning \<open>error\<close> returns an optional error, \<open>None\<close> for \<open>nil\<close>.\<close>

datatype error = Err (Error: string)

record http_request =
  req_method :: string
  req_url :: string
  req_content_type :: string
  req_body :: string

text \<open>What \<open>client.Do\<close> gives: a transport error (which includes the 10 s timeout), or a
  response with its status code and the bytes read from its body.\<close>

datatype http_outcome = DoFailed error | DoResponse int string

text \<open>
  The observable events of a run, in order: the entries written to the logger (message and
  fields), the HTTP requests handed to \<open>client.Do\<close>, and a marker for each message rendered
  by \<open>buildMessage\<close>.
\<close>

datatype event =
    LogInfo string "(string \<times> string) list"
  | LogError string "(string \<times> string) list"
  | Rendered string
  | HttpDo http_request

type_synonym trace = "event list"

record WeComResult =
  Errcode :: int
  Errmsg :: string
  WeCom_Type :: string
  MediaId :: string
  CreatedAt :: string

text \<open>
  The library functions and the outside world the notifier depends on are parameters: the
  JSON codec, request construction (which fails on a URL that does not parse), the remote
  end (its answer may depend on everything that happened before), the clock, and the
  float and time formatters behind \<open>%.2f\<close> and \<open>time.Format\<close>.
\<close>

record 'f env =
  json_Marshal :: "'f json \<Rightarrow> error + string"
  json_Unmarshal :: "string \<Rightarrow> error + 'f json"
  json_Unmarshal_WeComResult :: "string \<Rightarrow> error + WeComResult"
  http_NewRequest :: "string \<Rightarrow> error option"
  client_Do :: "trace \<Rightarrow> http_request \<Rightarrow> http_outcome"
  time_Now_UnixMilli :: "trace \<Rightarrow> int"
  fmt_2f :: "'f \<Rightarrow> string"
  time_Format :: "int \<Rightarrow> string"

text \<open>The HTTP requests of a trace, and each request of a stretch of events paired with
  the answer the outside world gave it (\<open>h\<close> is the history before the stretch).\<close>

fun http_requests :: "trace \<Rightarrow> http_request list" where
  "http_requests [] = []"
| "http_requests (HttpDo r # es) = r # http_requests es"
| "http_requests (e # es) = http_requests es"

fun exchanges :: "'f env \<Rightarrow> trace \<Rightarrow> trace \<Rightarrow> (http_request \<times> http_outcome) list" where
  "exchanges env h [] = []"
| "exchanges env h (HttpDo r # es) = (r, client_Do env h r) # exchanges env (h @ [HttpDo r]) es"
| "exchanges env h (e # es) = exchanges env (h @ [e]) es"

section \<open>The notifier (internal/service/notifier.go)\<close>

text \<open>The fields of \<open>models.Agent\<close>, \<open>models.AlertRecord\<close> and
  \<open>models.NotificationChannelConfig\<close> that the notifier reads.\<close>

record Agent =
  agent_ID :: string
  agent_Name :: string
  agent_Hostname :: string
  agent_IP :: string

record 'f AlertRecord =
  Level :: string
  AlertType :: string
  Status :: string
  Message :: string
  Threshold :: 'f
  ActualValue :: 'f
  FiredAt :: int
  ResolvedAt :: int

record 'f NotificationChannelConfig =
  Type :: string
  Enabled :: bool
  Config :: "(string \<times> 'f json) list"

text \<open>\<open>buildMessage\<close>: the two \<open>switch\<close> statements, then one of the two templates.
  The division of the millisecond time stamps truncates, as Go's does.\<close>

definition buildMessage :: "'f env \<Rightarrow> Agent \<Rightarrow> 'f AlertRecord \<Rightarrow> string" where
  "buildMessage env agent record =
     (let levelIcon =
            (if Level record = ''info'' then icon_info
             else if Level record = ''warning'' then icon_warning
             else if Level record = ''critical'' then icon_critical
             else []);
          alertTypeName =
            (if AlertType record = ''cpu'' then name_cpu
             else if AlertType record = ''memory'' then name_memory
             else if AlertType record = ''disk'' then name_disk
             else if AlertType record = ''network'' then name_network
             else if AlertType record = ''cert'' then name_cert
             else if AlertType record = ''service'' then name_service
             else [])
      in if Status record = ''firing'' then
           levelIcon @ '' '' @ alertTypeName @ ''\<newline>\<newline>'' @
           lbl_agent @ agent_Name agent @ '' ('' @ agent_ID agent @ '')\<newline>'' @
           lbl_host @ agent_Hostname agent @ ''\<newline>'' @
           ''IP: '' @ agent_IP agent @ ''\<newline>'' @
           lbl_alert_type @ AlertType record @ ''\<newline>'' @
           lbl_alert_message @ Message record @ ''\<newline>'' @
           lbl_threshold @ fmt_2f env (Threshold record) @ ''%\<newline>'' @
           lbl_current @ fmt_2f env (ActualValue record) @ ''%\<newline>'' @
           lbl_fired_at @ time_Format env (FiredAt record sdiv 1000)
         else if Status record = ''resolved'' then
           icon_resolved @ '' '' @ alertTypeName @ lbl_recovered @ ''\<newline>\<newline>'' @
           lbl_agent @ agent_Name agent @ '' ('' @ agent_ID agent @ '')\<newline>'' @
           lbl_host @ agent_Hostname agent @ ''\<newline>'' @
           ''IP: '' @ agent_IP agent @ ''\<newline>'' @
           lbl_alert_type @ AlertType record @ ''\<newline>'' @
           lbl_current @ fmt_2f env (ActualValue record) @ ''%\<newline>'' @
           lbl_resolved_at @ time_Format env (ResolvedAt record sdiv 1000)
         else [])"

subsection \<open>\<open>sendJSONRequest\<close>\<close>

definition sendJSONRequest ::
  "'f env \<Rightarrow> trace \<Rightarrow> string \<Rightarrow> 'f json \<Rightarrow> (error + string) \<times> trace" where
  "sendJSONRequest env tr url body =
     (case json_Marshal env body of
        Inl err \<Rightarrow> (Inl (Err (msg_marshal_failed @ Error err)), tr)
      | Inr data \<Rightarrow>
          (case http_NewRequest env url of
             Some err \<Rightarrow> (Inl (Err (msg_new_request_failed @ Error err)), tr)
           | None \<Rightarrow>
               (let req = \<lparr>req_method = ''POST'', req_url = url,
                           req_content_type = ''application/json'', req_body = data\<rparr>;
                    tr1 = tr @ [HttpDo req]
                in case client_Do env tr req of
                     DoFailed err \<Rightarrow> (Inl (Err (msg_do_failed @ Error err)), tr1)
                   | DoResponse StatusCode respBody \<Rightarrow>
                       if StatusCode < 200 \<or> StatusCode \<ge> 300 then
                         (Inl (Err (msg_status_failed @ fmt_d StatusCode @
                                    msg_status_response @ respBody)), tr1)
                       else
                         (Inr respBody,
                          tr1 @ [LogInfo log_sent_ok
                                   [(''url'', url), (''response'', respBody)]]))))"

subsection \<open>DingTalk\<close>

text \<open>The keyed hash object of \<open>crypto/hmac\<close>: created with a key, fed by \<open>Write\<close>,
  and \<open>Sum\<close> appends the code of everything written to its argument.\<close>

record hmac_state =
  hmac_key :: string
  hmac_written :: string

definition hmac_New :: "string \<Rightarrow> hmac_state" where
  "hmac_New key = \<lparr>hmac_key = key, hmac_written = []\<rparr>"

definition hmac_Write :: "hmac_state \<Rightarrow> string \<Rightarrow> hmac_state" where
  "hmac_Write h p = h\<lparr>hmac_written := hmac_written h @ p\<rparr>"

definition hmac_Sum :: "hmac_state \<Rightarrow> string \<Rightarrow> string" where
  "hmac_Sum h b = b @ HMAC_SHA256 (hmac_key h) (hmac_written h)"

definition calculateDingTalkSign :: "int \<Rightarrow> string \<Rightarrow> string" where
  "calculateDingTalkSign timestamp secret =
     (let stringToSign = fmt_d timestamp @ ''\<newline>'' @ secret;
          h = hmac_New secret;
          h = hmac_Write h stringToSign
      in EncodeToString (hmac_Sum h []))"

text \<open>The URL \<open>sendDingTalk\<close> posts to: the webhook, extended when a secret is given.\<close>

definition sendDingTalk_url :: "int \<Rightarrow> string \<Rightarrow> string \<Rightarrow> string" where
  "sendDingTalk_url timestamp webhook secret =
     (if secret \<noteq> [] then
        (let sign = calculateDingTalkSign timestamp secret
         in webhook @ ''&timestamp='' @ fmt_d timestamp @ ''&sign='' @ sign)
      else webhook)"

definition sendDingTalk_body :: "string \<Rightarrow> 'f json" where
  "sendDingTalk_body message =
     JObj [(''msgtype'', JStr ''text''), (''text'', JObj [(''content'', JStr message)])]"

definition sendDingTalk ::
  "'f env \<Rightarrow> trace \<Rightarrow> string \<Rightarrow> string \<Rightarrow> string \<Rightarrow> error option \<times> trace" where
  "sendDingTalk env tr webhook secret message =
     (let body = sendDingTalk_body message;
          timestamp = time_Now_UnixMilli env tr;
          webhook = sendDingTalk_url timestamp webhook secret
      in case sendJSONRequest env tr webhook body of
           (Inl err, tr') \<Rightarrow> (Some err, tr')
         | (Inr _, tr') \<Rightarrow> (None, tr'))"

subsection \<open>WeCom, Feishu and the custom webhook\<close>

definition sendWeCom_body :: "string \<Rightarrow> 'f json" where
  "sendWeCom_body message =
     JObj [(''msgtype'', JStr ''text''), (''text'', JObj [(''content'', JStr message)])]"

definition sendWeCom ::
  "'f env \<Rightarrow> trace \<Rightarrow> string \<Rightarrow> string \<Rightarrow> error option \<times> trace" where
  "sendWeCom env tr webhook message =
     (case sendJSONRequest env tr webhook (sendWeCom_body message) of
        (Inl err, tr') \<Rightarrow> (Some err, tr')
      | (Inr result, tr') \<Rightarrow>
          (case json_Unmarshal_WeComResult env result of
             Inl err \<Rightarrow> (Some err, tr')
           | Inr weComResult \<Rightarrow>
               if Errcode weComResult \<noteq> 0 then (Some (Err (Errmsg weComResult)), tr')
               else (None, tr')))"

definition sendFeishu_body :: "string \<Rightarrow> 'f json" where
  "sendFeishu_body message =
     JObj [(''msg_type'', JStr ''text''), (''content'', JObj [(''text'', JStr message)])]"

definition sendFeishu ::
  "'f env \<Rightarrow> trace \<Rightarrow> string \<Rightarrow> string \<Rightarrow> error option \<times> trace" where
  "sendFeishu env tr webhook message =
     (case sendJSONRequest env tr webhook (sendFeishu_body message) of
        (Inl err, tr') \<Rightarrow> (Some err, tr')
      | (Inr _, tr') \<Rightarrow> (None, tr'))"

definition sendCustomWebhook_body :: "string \<Rightarrow> 'f json" where
  "sendCustomWebhook_body message =
     JObj [(''msg_type'', JStr ''text''), (''text'', JObj [(''content'', JStr message)])]"

definition sendCustomWebhook ::
  "'f env \<Rightarrow> trace \<Rightarrow> string \<Rightarrow> string \<Rightarrow> error option \<times> trace" where
  "sendCustomWebhook env tr webhook message =
     (case sendJSONRequest env tr webhook (sendCustomWebhook_body message) of
        (Inl err, tr') \<Rightarrow> (Some err, tr')
      | (Inr _, tr') \<Rightarrow> (None, tr'))"

subsection \<open>Sending by channel configuration\<close>

text \<open>The type assertion \<open>config[k].(string)\<close>: the string stored under the key with
  \<open>True\<close>, or the empty string with \<open>False\<close> when the key is absent or holds a value of
  another kind.\<close>

definition config_string :: "(string \<times> 'f json) list \<Rightarrow> string \<Rightarrow> string \<times> bool" where
  "config_string config k =
     (case map_of config k of Some (JStr s) \<Rightarrow> (s, True) | _ \<Rightarrow> ([], False))"

definition sendDingTalkByConfig ::
  "'f env \<Rightarrow> trace \<Rightarrow> (string \<times> 'f json) list \<Rightarrow> string \<Rightarrow> error option \<times> trace" where
  "sendDingTalkByConfig env tr config message =
     (let (secretKey, ok) = config_string config ''secretKey'' in
      if \<not> ok \<or> secretKey = [] then (Some (Err msg_dingtalk_no_key), tr)
      else
        (let webhook = ''https://oapi.dingtalk.com/robot/send?access_token='' @ secretKey;
             (signSecret, _) = config_string config ''signSecret''
         in sendDingTalk env tr webhook signSecret message))"

definition sendWeComByConfig ::
  "'f env \<Rightarrow> trace \<Rightarrow> (string \<times> 'f json) list \<Rightarrow> string \<Rightarrow> error option \<times> trace" where
  "sendWeComByConfig env tr config message =
     (let (secretKey, ok) = config_string config ''secretKey'' in
      if \<not> ok \<or> secretKey = [] then (Some (Err msg_wecom_no_key), tr)
      else
        (let webhook = ''https://qyapi.weixin.qq.com/cgi-bin/webhook/send?key='' @ secretKey
         in sendWeCom env tr webhook message))"

definition sendFeishuByConfig ::
  "'f env \<Rightarrow> trace \<Rightarrow> (string \<times> 'f json) list \<Rightarrow> string \<Rightarrow> error option \<times> trace" where
  "sendFeishuByConfig env tr config message =
     (let (secretKey, ok) = config_string config ''secretKey'' in
      if \<not> ok \<or> secretKey = [] then (Some (Err msg_feishu_no_key), tr)
      else
        (let webhook = ''https://open.feishu.cn/open-apis/bot/v2/hook/'' @ secretKey
         in sendFeishu env tr webhook message))"

definition sendWebhookByConfig ::
  "'f env \<Rightarrow> trace \<Rightarrow> (string \<times> 'f json) list \<Rightarrow> string \<Rightarrow> error option \<times> trace" where
  "sendWebhookByConfig env tr config message =
     (let (url, ok) = config_string config ''url'' in
      if \<not> ok \<or> url = [] then (Some (Err msg_webhook_no_url), tr)
      else sendCustomWebhook env tr url message)"

definition SendNotificationByConfig ::
  "'f env \<Rightarrow> trace \<Rightarrow> 'f NotificationChannelConfig \<Rightarrow> 'f AlertRecord \<Rightarrow> Agent
     \<Rightarrow> error option \<times> trace" where
  "SendNotificationByConfig env tr channelConfig record agent =
     (if \<not> Enabled channelConfig then (Some (Err msg_channel_disabled), tr)
      else
        (let tr = tr @ [LogInfo log_send [(''channelType'', Type channelConfig)]];
             message = buildMessage env agent record;
             tr = tr @ [Rendered message]
         in if Type channelConfig = ''dingtalk'' then
              sendDingTalkByConfig env tr (Config channelConfig) message
            else if Type channelConfig = ''wecom'' then
              sendWeComByConfig env tr (Config channelConfig) message
            else if Type channelConfig = ''feishu'' then
              sendFeishuByConfig env tr (Config channelConfig) message
            else if Type channelConfig = ''webhook'' then
              sendWebhookByConfig env tr (Config channelConfig) message
            else if Type channelConfig = ''email'' then
              (Some (Err msg_email_unimplemented), tr)
            else
              (Some (Err (msg_unsupported_type @ Type channelConfig)), tr)))"

text \<open>The verb \<open>%v\<close> on a slice of errors: their texts, separated by one space, in
  square brackets.\<close>

fun join_space :: "string list \<Rightarrow> string" where
  "join_space [] = []"
| "join_space [x] = x"
| "join_space (x # y # r) = x @ '' '' @ join_space (y # r)"

definition fmt_v_errors :: "error list \<Rightarrow> string" where
  "fmt_v_errors errs = ''['' @ join_space (map Error errs) @ '']''"

text \<open>The \<open>for\<close> loop of \<open>SendNotificationByConfigs\<close>, with the slice \<open>errs\<close> as
  accumulator.\<close>

fun SendNotificationByConfigs_loop ::
  "'f env \<Rightarrow> trace \<Rightarrow> error list \<Rightarrow> 'f NotificationChannelConfig list \<Rightarrow> 'f AlertRecord
     \<Rightarrow> Agent \<Rightarrow> error list \<times> trace" where
  "SendNotificationByConfigs_loop env tr errs [] record agent = (errs, tr)"
| "SendNotificationByConfigs_loop env tr errs (channelConfig # rest) record agent =
     (case SendNotificationByConfig env tr channelConfig record agent of
        (Some err, tr') \<Rightarrow>
          SendNotificationByConfigs_loop env
            (tr' @ [LogError log_send_failed
                      [(''channelType'', Type channelConfig), (''error'', Error err)]])
            (errs @ [err]) rest record agent
      | (None, tr') \<Rightarrow> SendNotificationByConfigs_loop env tr' errs rest record agent)"

definition SendNotificationByConfigs ::
  "'f env \<Rightarrow> trace \<Rightarrow> 'f NotificationChannelConfig list \<Rightarrow> 'f AlertRecord \<Rightarrow> Agent
     \<Rightarrow> error option \<times> trace" where
  "SendNotificationByConfigs env tr channelConfigs record agent =
     (case SendNotificationByConfigs_loop env tr [] channelConfigs record agent of
        (errs, tr') \<Rightarrow>
          if length errs > 0 then (Some (Err (msg_partial_failure @ fmt_v_errors errs)), tr')
          else (None, tr'))"

text \<open>The exported wrappers.\<close>

definition SendDingTalkByConfig ::
  "'f env \<Rightarrow> trace \<Rightarrow> (string \<times> 'f json) list \<Rightarrow> string \<Rightarrow> error option \<times> trace" where
  "SendDingTalkByConfig env tr config message = sendDingTalkByConfig env tr config message"

definition SendWeComByConfig ::
  "'f env \<Rightarrow> trace \<Rightarrow> (string \<times> 'f json) list \<Rightarrow> string \<Rightarrow> error option \<times> trace" where
  "SendWeComByConfig env tr config message = sendWeComByConfig env tr config message"

definition SendFeishuByConfig ::
  "'f env \<Rightarrow> trace \<Rightarrow> (string \<times> 'f json) list \<Rightarrow> string \<Rightarrow> error option \<times> trace" where
  "SendFeishuByConfig env tr config message = sendFeishuByConfig env tr config message"

definition SendWebhookByConfig ::
  "'f env \<Rightarrow> trace \<Rightarrow> (string \<times> 'f json) list \<Rightarrow> string \<Rightarrow> error option \<times> trace" where
  "SendWebhookByConfig env tr config message = sendWebhookByConfig env tr config message"

text \<open>
  The reading of \<open>SendNotificationByConfigs\<close> its description gives: every channel of the
  list is dispatched in turn, whatever happened to the earlier ones, and the outcome of each
  is kept. It is compared with the loop below.
\<close>

fun dispatch_each ::
  "'f env \<Rightarrow> trace \<Rightarrow> 'f NotificationChannelConfig list \<Rightarrow> 'f AlertRecord \<Rightarrow> Agent
     \<Rightarrow> error option list \<times> trace" where
  "dispatch_each env tr [] record agent = ([], tr)"
| "dispatch_each env tr (c # cs) record agent =
     (let (res, tr1) = SendNotificationByConfig env tr c record agent;
          tr2 = (case res of
                   None \<Rightarrow> tr1
                 | Some err \<Rightarrow>
                     tr1 @ [LogError log_send_failed
                              [(''channelType'', Type c), (''error'', Error err)]]);
          (rs, tr3) = dispatch_each env tr2 cs record agent
      in (res # rs, tr3))"

section \<open>The property handler (internal/handler/property_handler.go)\<close>

definition PropertyIDNotificationChannels :: string where
  "PropertyIDNotificationChannels = ''notification_channels''"

definition PropertyIDSystemConfig :: string where
  "PropertyIDSystemConfig = ''system_config''"

text \<open>The fields of a stored property that the handler reads.\<close>

record Property =
  prop_ID :: string
  prop_Name :: string
  prop_Value :: string

text \<open>What \<open>c.JSON\<close> writes: a status code and a JSON document.\<close>

record 'f response =
  resp_status :: int
  resp_body :: "'f json"

text \<open>
  The property service the handler calls is not among the sources; the handler is modelled
  over any implementation of the four methods it uses, on any type \<open>'s\<close> of stored state.
  \<open>svc_GetValue\<close> is \<open>GetValue\<close> at the type of the channel list the handler passes.
\<close>

record ('s, 'f) PropertyService =
  svc_Get :: "'s \<Rightarrow> string \<Rightarrow> error + Property"
  svc_Set :: "'s \<Rightarrow> string \<Rightarrow> string \<Rightarrow> 'f json \<Rightarrow> error option \<times> 's"
  svc_Delete :: "'s \<Rightarrow> string \<Rightarrow> error option \<times> 's"
  svc_GetValue :: "'s \<Rightarrow> string \<Rightarrow> error + 'f NotificationChannelConfig list"



definition DeleteProperty ::
  "'f env \<Rightarrow> ('s, 'f) PropertyService \<Rightarrow> 's \<Rightarrow> trace \<Rightarrow> string \<Rightarrow> 'f response \<times> 's \<times> trace" where
  "DeleteProperty env svc st tr id' =
     (case svc_Delete svc st id' of
        (Some err, st') \<Rightarrow>
          (\<lparr>resp_status = 500, resp_body = JObj [(''error'', JStr txt_delete_failed)]\<rparr>, st',
           tr @ [LogError txt_delete_failed [(''id'', id'), (''error'', Error err)]])
      | (None, st') \<Rightarrow>
          (\<lparr>resp_status = 200, resp_body = JObj [(''message'', JStr txt_delete_ok)]\<rparr>, st', tr))"

definition GetSystemConfig ::
  "'f env \<Rightarrow> ('s, 'f) PropertyService \<Rightarrow> 's \<Rightarrow> trace \<Rightarrow> 'f response \<times> trace" where
  "GetSystemConfig env svc st tr =
     (case svc_Get svc st PropertyIDSystemConfig of
        Inl err \<Rightarrow>
          (\<lparr>resp_status = 200,
            resp_body = JObj [(''id'', JStr PropertyIDSystemConfig),
                              (''name'', JStr txt_system_config),
                              (''value'', JObj [(''systemNameEn'', JStr ''Pika Monitor''),
                                                (''systemNameZh'', JStr txt_pika_zh),
                                                (''logoBase64'', JStr [])])]\<rparr>,
           tr)
      | Inr property \<Rightarrow>
          if prop_Value property \<noteq> [] then
            (case json_Unmarshal env (prop_Value property) of
               Inl err \<Rightarrow>
                 (\<lparr>resp_status = 500, resp_body = JObj [(''error'', JStr txt_parse_failed)]\<rparr>,
                  tr @ [LogError txt_parse_failed
                          [(''id'', PropertyIDSystemConfig), (''error'', Error err)]])
             | Inr v \<Rightarrow>
                 (\<lparr>resp_status = 200,
                   resp_body = JObj [(''id'', JStr (prop_ID property)),
                                     (''name'', JStr (prop_Name property)), (''value'', v)]\<rparr>,
                  tr))
          else
            (\<lparr>resp_status = 200,
              resp_body = JObj [(''id'', JStr (prop_ID property)),
                                (''name'', JStr (prop_Name property)), (''value'', JNull)]\<rparr>,
             tr))"

text \<open>The end of \<open>TestNotificationChannel\<close>, after the \<open>switch\<close> has sent.\<close>

definition test_reply ::
  "string \<Rightarrow> error option \<times> trace \<Rightarrow> 'f response \<times> trace" where
  "test_reply channelType sent =
     (case sent of
        (Some sendErr, tr) \<Rightarrow>
          (\<lparr>resp_status = 500,
            resp_body = JObj [(''error'', JStr (txt_test_failed_prefix @ Error sendErr))]\<rparr>,
           tr @ [LogError txt_test_failed
                   [(''type'', channelType), (''error'', Error sendErr)]])
      | (None, tr) \<Rightarrow>
          (\<lparr>resp_status = 200, resp_body = JObj [(''message'', JStr txt_test_sent)]\<rparr>, tr))"

text \<open>The stored channels have the three fields of a channel configuration; the loop
  over them stops at the first one of the requested type.\<close>

definition TestNotificationChannel ::
  "'f env \<Rightarrow> ('s, 'f) PropertyService \<Rightarrow> 's \<Rightarrow> trace \<Rightarrow> string \<Rightarrow> 'f response \<times> trace" where
  "TestNotificationChannel env svc st tr channelType =
     (if channelType = [] then
        (\<lparr>resp_status = 400, resp_body = JObj [(''error'', JStr txt_missing_type)]\<rparr>, tr)
      else
        (case svc_GetValue svc st PropertyIDNotificationChannels of
           Inl err \<Rightarrow>
             (\<lparr>resp_status = 500, resp_body = JObj [(''error'', JStr txt_channels_failed)]\<rparr>,
              tr @ [LogError txt_channels_failed [(''error'', Error err)]])
         | Inr channels \<Rightarrow>
             (case find (\<lambda>c. Type c = channelType) channels of
                None \<Rightarrow>
                  (\<lparr>resp_status = 404,
                    resp_body = JObj [(''error'', JStr txt_channel_absent)]\<rparr>, tr)
              | Some targetChannel \<Rightarrow>
                  if \<not> Enabled targetChannel then
                    (\<lparr>resp_status = 400,
                      resp_body = JObj [(''error'', JStr txt_channel_not_enabled)]\<rparr>, tr)
                  else
                    (let message = txt_test_message in
                     if Type targetChannel = ''dingtalk'' then
                       test_reply channelType
                         (SendDingTalkByConfig env tr (Config targetChannel) message)
                     else if Type targetChannel = ''wecom'' then
                       test_reply channelType
                         (SendWeComByConfig env tr (Config targetChannel) message)
                     else if Type targetChannel = ''feishu'' then
                       test_reply channelType
                         (SendFeishuByConfig env tr (Config targetChannel) message)
                     else if Type targetChannel = ''webhook'' then
                       test_reply channelType
                         (SendWebhookByConfig env tr (Config targetChannel) message)
                     else
                       (\<lparr>resp_status = 400,
                         resp_body = JObj [(''error'', JStr txt_unsupported)]\<rparr>, tr)))))"

section \<open>The property service, from its description\<close>

text \<open>
  Modelled from the spec: the property service (\<open>service.PropertyService\<close>) that the handler
  calls is missing from the sources. Its description is a typed facade over a single
  key-value store with JSON-encoded values, with the operations get(id), giving name and
  value, set(id, name, value), an upsert, delete(id), and getInto(id, destType), which
  decodes into a schema the caller provides. The store is a map from ids to properties, a
  value is stored as the text \<open>json.Marshal\<close> gives, and reading an id that is not stored
  fails. \<open>decode\<close> stands for \<open>json.Unmarshal\<close> at the type of the channel list.
\<close>

type_synonym store = "string \<rightharpoonup> Property"

definition spec_Get :: "store \<Rightarrow> string \<Rightarrow> error + Property" where
  "spec_Get st id' = (case st id' of None \<Rightarrow> Inl (Err ''record not found'') | Some p \<Rightarrow> Inr p)"

definition spec_Set ::
  "'f env \<Rightarrow> store \<Rightarrow> string \<Rightarrow> string \<Rightarrow> 'f json \<Rightarrow> error option \<times> store" where
  "spec_Set env st id' name v =
     (case json_Marshal env v of
        Inl err \<Rightarrow> (Some err, st)
      | Inr s \<Rightarrow> (None, st(id' \<mapsto> \<lparr>prop_ID = id', prop_Name = name, prop_Value = s\<rparr>)))"

definition spec_Delete :: "store \<Rightarrow> string \<Rightarrow> error option \<times> store" where
  "spec_Delete st id' = (None, st(id' := None))"

definition spec_GetValue ::
  "(string \<Rightarrow> error + 'f NotificationChannelConfig list) \<Rightarrow> store \<Rightarrow> string
     \<Rightarrow> error + 'f NotificationChannelConfig list" where
  "spec_GetValue decode st id' =
     (case spec_Get st id' of Inl err \<Rightarrow> Inl err | Inr p \<Rightarrow> decode (prop_Value p))"

definition spec_PropertyService ::
  "'f env \<Rightarrow> (string \<Rightarrow> error + 'f NotificationChannelConfig list)
     \<Rightarrow> (store, 'f) PropertyService" where
  "spec_PropertyService env decode =
     \<lparr>svc_Get = spec_Get, svc_Set = spec_Set env, svc_Delete = spec_Delete,
      svc_GetValue = spec_GetValue decode\<rparr>"

section \<open>A concrete environment for worked instances\<close>

text \<open>
  The instances further down run the model in one fixed environment: numbers are integers,
  \<open>json.Marshal\<close> is a plain printer, \<open>json.Unmarshal\<close> reads the three literals and
  unsigned decimal numbers, every URL is accepted, the clock stands at 1700000000000 ms, and
  the remote end answers by the host of the URL.
\<close>

definition dq :: "string \<Rightarrow> string" where
  "dq s = CHR 0x22 # s @ [CHR 0x22]"

fun quote_json :: "string \<Rightarrow> string" where
  "quote_json [] = []"
| "quote_json (c # cs) =
     (if c = CHR 0x22 \<or> c = CHR 0x5C then [CHR 0x5C, c] else [c]) @ quote_json cs"

fun example_marshal :: "int json \<Rightarrow> string"
  and example_marshal_list :: "int json list \<Rightarrow> string"
  and example_marshal_members :: "(string \<times> int json) list \<Rightarrow> string" where
  "example_marshal JNull = ''null''"
| "example_marshal (JBool b) = (if b then ''true'' else ''false'')"
| "example_marshal (JNum n) = fmt_d n"
| "example_marshal (JStr s) = dq (quote_json s)"
| "example_marshal (JArr xs) = ''['' @ example_marshal_list xs @ '']''"
| "example_marshal (JObj ms) = ''{'' @ example_marshal_members ms @ ''}''"
| "example_marshal_list [] = []"
| "example_marshal_list (x # xs) =
     example_marshal x @ (if xs = [] then [] else '','' @ example_marshal_list xs)"
| "example_marshal_members [] = []"
| "example_marshal_members ((k, v) # ms) =
     dq (quote_json k) @ '':'' @ example_marshal v
       @ (if ms = [] then [] else '','' @ example_marshal_members ms)"

definition example_unmarshal :: "string \<Rightarrow> error + int json" where
  "example_unmarshal s =
     (if s = ''null'' then Inr JNull
      else if s = ''true'' then Inr (JBool True)
      else if s = ''false'' then Inr (JBool False)
      else if s \<noteq> [] \<and> list_all (\<lambda>c. c \<in> set ''0123456789'') s
                \<and> (s = ''0'' \<or> hd s \<noteq> CHR ''0'') then
        Inr (JNum (foldl (\<lambda>a c. 10 * a + (of_char c - 48)) 0 s))
      else Inl (Err ''invalid character''))"

definition wecom_ok :: string where
  "wecom_ok = ''{'' @ dq ''errcode'' @ '':0,'' @ dq ''errmsg'' @ '':'' @ dq ''ok'' @ ''}''"

definition wecom_refused :: string where
  "wecom_refused =
     ''{'' @ dq ''errcode'' @ '':93000,'' @ dq ''errmsg'' @ '':'' @ dq ''invalid webhook url'' @ ''}''"

definition example_unmarshal_wecom :: "string \<Rightarrow> error + WeComResult" where
  "example_unmarshal_wecom s =
     (if s = wecom_ok then
        Inr \<lparr>Errcode = 0, Errmsg = ''ok'', WeCom_Type = [], MediaId = [], CreatedAt = []\<rparr>
      else if s = wecom_refused then
        Inr \<lparr>Errcode = 93000, Errmsg = ''invalid webhook url'', WeCom_Type = [], MediaId = [],
             CreatedAt = []\<rparr>
      else Inl (Err ''unexpected end of JSON input''))"

definition example_remote :: "string \<Rightarrow> http_outcome" where
  "example_remote url =
     (if url = ''https://qyapi.weixin.qq.com/cgi-bin/webhook/send?key=good'' then
        DoResponse 200 wecom_ok
      else if prefix ''https://qyapi.weixin.qq.com/'' url then DoResponse 200 wecom_refused
      else if prefix ''https://oapi.dingtalk.com/'' url then DoResponse 200 wecom_ok
      else if prefix ''https://open.feishu.cn/'' url then DoResponse 200 ''{}''
      else if url = ''http://hooks.example/down'' then
        DoResponse 500 (replicate 600 (CHR ''a''))
      else DoFailed (Err ''dial tcp: connection refused''))"

definition example_env :: "int env" where
  "example_env =
     \<lparr>json_Marshal = (\<lambda>v. Inr (example_marshal v)),
      json_Unmarshal = example_unmarshal,
      json_Unmarshal_WeComResult = example_unmarshal_wecom,
      http_NewRequest = (\<lambda>url. None),
      client_Do = (\<lambda>h r. example_remote (req_url r)),
      time_Now_UnixMilli = (\<lambda>h. 1700000000000),
      fmt_2f = (\<lambda>n. fmt_d n @ ''.00''),
      time_Format = fmt_d\<rparr>"

definition example_agent :: Agent where
  "example_agent =
     \<lparr>agent_ID = ''a1'', agent_Name = ''web-1'', agent_Hostname = ''web-1.local'',
      agent_IP = ''10.0.0.5''\<rparr>"

definition example_record :: "int AlertRecord" where
  "example_record =
     \<lparr>Level = ''warning'', AlertType = ''cpu'', Status = ''firing'', Message = ''CPU usage high'',
      Threshold = 80, ActualValue = 93, FiredAt = 1700000000000, ResolvedAt = 0\<rparr>"

definition channel :: "string \<Rightarrow> bool \<Rightarrow> (string \<times> string) list \<Rightarrow> int NotificationChannelConfig" where
  "channel t on cfg = \<lparr>Type = t, Enabled = on, Config = map (\<lambda>(k, v). (k, JStr v)) cfg\<rparr>"


text \<open>The channels of the instances: a stored list, read back by a decoder that knows
  the one text stored, and a batch for the alert path.\<close>

definition example_channels :: "int NotificationChannelConfig list" where
  "example_channels =
     [channel ''wecom'' True [(''secretKey'', ''bad'')],
      channel ''feishu'' False [(''secretKey'', ''tok''), (''signSecret'', ''s'')],
      channel ''webhook'' True [(''url'', ''http://hooks.example/down'')]]"

definition example_batch :: "int NotificationChannelConfig list" where
  "example_batch =
     [channel ''wecom'' True [(''secretKey'', ''bad'')],
      channel ''email'' True [],
      channel ''feishu'' False [(''secretKey'', ''tok'')],
      channel ''webhook'' True [(''url'', ''http://hooks.example/up'')],
      channel ''feishu'' True [(''secretKey'', ''tok'')]]"

definition channel_json :: "int NotificationChannelConfig \<Rightarrow> int json" where
  "channel_json c =
     JObj [(''type'', JStr (Type c)), (''enabled'', JBool (Enabled c)),
           (''config'', JObj (Config c))]"

definition example_decode :: "string \<Rightarrow> error + int NotificationChannelConfig list" where
  "example_decode s =
     (if s = example_marshal (JArr (map channel_json example_channels)) then
        Inr example_channels
      else Inl (Err ''json: cannot unmarshal''))"

definition example_service :: "(store, int) PropertyService" where
  "example_service = spec_PropertyService example_env example_decode"

definition example_store :: store where
  "example_store =
     [PropertyIDNotificationChannels \<mapsto>
        \<lparr>prop_ID = PropertyIDNotificationChannels, prop_Name = ''channels'',
         prop_Value = example_marshal (JArr (map channel_json example_channels))\<rparr>,
      PropertyIDSystemConfig \<mapsto>
        \<lparr>prop_ID = PropertyIDSystemConfig, prop_Name = ''system'', prop_Value = ''{oops''\<rparr>]"

section \<open>Notions used in the statements\<close>

text \<open>The request \<open>sendJSONRequest\<close> builds for a URL and a marshalled body.\<close>

definition post :: "string \<Rightarrow> string \<Rightarrow> http_request" where
  "post url data = \<lparr>req_method = ''POST'', req_url = url,
                     req_content_type = ''application/json'', req_body = data\<rparr>"

text \<open>
  A stretch of events is a delivery when it holds exactly one request and the answer to it
  was a response with a status code from 200 to 299 whose body, where a WeCom result is
  expected, decodes to a result with error code 0.
\<close>

definition delivered :: "'f env \<Rightarrow> bool \<Rightarrow> trace \<Rightarrow> trace \<Rightarrow> bool" where
  "delivered env wecom h new =
     (\<exists>r st b. exchanges env h new = [(r, DoResponse st b)] \<and> 200 \<le> st \<and> st < 300 \<and>
        (wecom \<longrightarrow> (\<exists>w. json_Unmarshal_WeComResult env b = Inr w \<and> Errcode w = 0)))"

text \<open>The entries of a JSON object, the value under a key, and the text under the key
  \<open>error\<close> of a response, which is what the caller of an endpoint is shown.\<close>

fun members :: "'f json \<Rightarrow> (string \<times> 'f json) list" where
  "members (JObj ms) = ms"
| "members _ = []"

definition field :: "'f json \<Rightarrow> string \<Rightarrow> 'f json option" where
  "field j k = map_of (members j) k"


text \<open>The errors among the outcomes of a batch, in order.\<close>

definition failures :: "error option list \<Rightarrow> error list" where
  "failures outs = [e. Some e \<leftarrow> outs]"



section \<open>Auxiliary facts\<close>

subsection \<open>Occurrences of a pattern\<close>

lemma prefix_sep: "c \<notin> set p \<Longrightarrow> prefix p (zs @ c # ys) \<longleftrightarrow> prefix p zs"
  by (auto simp: prefix_append prefix_Cons)

lemma count_sub_sep:
  "c \<notin> set p \<Longrightarrow> p \<noteq> [] \<Longrightarrow> count_sub p (xs @ c # ys) = count_sub p xs + count_sub p ys"
proof (induction xs)
  case Nil
  then have "\<not> prefix p (c # ys)" by (cases p) auto
  with Nil show ?case by simp
next
  case (Cons x xs)
  have "prefix p (x # xs @ c # ys) \<longleftrightarrow> prefix p (x # xs)"
    using prefix_sep [OF Cons.prems(1), of "x # xs" ys] by simp
  with Cons show ?case by simp
qed

lemma prefix_last:
  assumes "p \<noteq> []" "last p \<notin> set ys"
  shows "prefix p (zs @ ys) \<longleftrightarrow> prefix p zs"
proof
  assume "prefix p (zs @ ys)"
  then consider "prefix p zs" | us where "p = zs @ us" "prefix us ys"
    by (auto simp: prefix_append)
  then show "prefix p zs"
  proof cases
    case 1
    then show ?thesis .
  next
    case 2
    show ?thesis
    proof (cases "us = []")
      case True
      with 2 show ?thesis by simp
    next
      case False
      with 2 have "last p = last us" by simp
      moreover have "last us \<in> set us" using False by simp
      moreover have "set us \<subseteq> set ys" using 2(2) by (rule set_mono_prefix)
      ultimately show ?thesis using assms(2) by auto
    qed
  qed
next
  assume "prefix p zs"
  then show "prefix p (zs @ ys)" by (simp add: prefix_append)
qed

lemma count_sub_last:
  assumes "p \<noteq> []" "last p \<notin> set ys"
  shows "count_sub p (xs @ ys) = count_sub p xs"
proof (induction xs)
  case Nil
  have "count_sub p zs = 0" if "set zs \<subseteq> set ys" for zs
    using that
  proof (induction zs)
    case Nil
    then show ?case using assms(1) by simp
  next
    case (Cons z zs)
    have "\<not> prefix p (z # zs)"
    proof
      assume "prefix p (z # zs)"
      then have "set p \<subseteq> set (z # zs)" by (rule set_mono_prefix)
      moreover have "last p \<in> set p" using assms(1) by simp
      ultimately show False using Cons.prems assms(2) by auto
    qed
    with Cons show ?case by simp
  qed
  then show ?case using assms(1) by simp
next
  case (Cons x xs)
  have "prefix p (x # xs @ ys) \<longleftrightarrow> prefix p (x # xs)"
    using prefix_last [OF assms, of "x # xs"] by simp
  with Cons show ?case by simp
qed

lemma adjacent_Cons: "adjacent a b s \<Longrightarrow> adjacent a b (x # s)"
  by (cases s) auto

lemma adjacent_mid: "adjacent a b (q @ a # b # r)"
  by (induction q) (auto simp: adjacent_Cons)

lemma count_sub_adjacent:
  "\<not> adjacent a b s \<Longrightarrow> count_sub (q @ [a, b]) s = 0"
proof (induction s)
  case Nil
  then show ?case by simp
next
  case (Cons x s)
  have "\<not> prefix (q @ [a, b]) (x # s)"
  proof
    assume "prefix (q @ [a, b]) (x # s)"
    then obtain r where "x # s = (q @ [a, b]) @ r" by (auto simp: prefix_def)
    then have "adjacent a b (x # s)" using adjacent_mid [of a b q r] by simp
    with Cons.prems show False by simp
  qed
  moreover have "\<not> adjacent a b s" using Cons.prems adjacent_Cons [of a b s x] by auto
  ultimately show ?case using Cons.IH by simp
qed


lemma b64_not_pad: "i < 64 \<Longrightarrow> b64 i \<noteq> CHR ''=''"
proof -
  have "\<forall>j\<in>{0..<64}. b64 j \<noteq> CHR ''=''" by code_simp
  then show "i < 64 \<Longrightarrow> b64 i \<noteq> CHR ''=''" by simp
qed

lemma b64_mult4: "b64 (j mod 16 * 4) \<noteq> CHR ''n'' \<and> b64 (j mod 16 * 4) \<noteq> CHR ''p''"
proof -
  have "\<forall>k\<in>{0..<16}. b64 (k * 4) \<noteq> CHR ''n'' \<and> b64 (k * 4) \<noteq> CHR ''p''" by code_simp
  moreover have "j mod 16 \<in> {0..<16}" by simp
  ultimately show ?thesis by blast
qed

lemma b64_mult16: "b64 (j mod 4 * 16) \<noteq> CHR ''n'' \<and> b64 (j mod 4 * 16) \<noteq> CHR ''p''"
proof -
  have "\<forall>k\<in>{0..<4}. b64 (k * 16) \<noteq> CHR ''n'' \<and> b64 (k * 16) \<noteq> CHR ''p''" by code_simp
  moreover have "j mod 4 \<in> {0..<4}" by simp
  ultimately show ?thesis by blast
qed

lemma of_char_lt: "(of_char c :: nat) < 256"
  by (metis of_char_mod_256 mod_less_divisor zero_less_numeral)

subsection \<open>The base64 alphabet and decimal digits\<close>

lemma adjacent_Cons_iff:
  "adjacent x y (c # E) \<longleftrightarrow> (E \<noteq> [] \<and> c = x \<and> hd E = y) \<or> adjacent x y E"
  by (cases E) auto

lemma EncodeToString_hd:
  "m \<noteq> [] \<Longrightarrow> EncodeToString m \<noteq> [] \<and> hd (EncodeToString m) = b64 (of_char (hd m) div 4)"
  by (induction m rule: EncodeToString.induct) (simp_all add: Let_def)

lemma b64_div4: "b64 ((of_char a :: nat) div 4) \<noteq> CHR ''=''"
  using of_char_lt [of a] by (intro b64_not_pad) arith

lemma b64_mid1: "b64 ((of_char a :: nat) mod 4 * 16 + (of_char b :: nat) div 16) \<noteq> CHR ''=''"
proof -
  have "(of_char a :: nat) mod 4 < 4" by simp
  moreover have "(of_char b :: nat) div 16 < 16" using of_char_lt [of b] by arith
  ultimately show ?thesis by (intro b64_not_pad) linarith
qed

lemma b64_mid2: "b64 ((of_char b :: nat) mod 16 * 4 + (of_char c :: nat) div 64) \<noteq> CHR ''=''"
proof -
  have "(of_char b :: nat) mod 16 < 16" by simp
  moreover have "(of_char c :: nat) div 64 < 4" using of_char_lt [of c] by arith
  ultimately show ?thesis by (intro b64_not_pad) linarith
qed

lemma b64_pad4: "b64 ((of_char b :: nat) mod 16 * 4) \<noteq> CHR ''=''"
proof -
  have "(of_char b :: nat) mod 16 < 16" by simp
  then show ?thesis by (intro b64_not_pad) linarith
qed

lemma b64_pad16: "b64 ((of_char b :: nat) mod 4 * 16) \<noteq> CHR ''=''"
proof -
  have "(of_char b :: nat) mod 4 < 4" by simp
  then show ?thesis by (intro b64_not_pad) linarith
qed

lemma b64_low: "b64 ((of_char c :: nat) mod 64) \<noteq> CHR ''=''"
  by (intro b64_not_pad) simp

lemma EncodeToString_no_pad_after:
  assumes "x = CHR ''n'' \<or> x = CHR ''p''"
  shows "\<not> adjacent x (CHR ''='') (EncodeToString m)"
proof (induction m rule: EncodeToString.induct)
  case (1 a b c rest)
  let ?E = "EncodeToString rest"
  have hd: "hd ?E \<noteq> CHR ''=''" if "?E \<noteq> []"
  proof -
    from that have "rest \<noteq> []" by auto
    then show ?thesis using EncodeToString_hd [of rest] b64_div4 by simp
  qed
  have "\<not> adjacent x (CHR ''='') (b64 (of_char c mod 64) # ?E)"
    using 1 hd by (auto simp: adjacent_Cons_iff)
  then show ?case
    by (simp add: Let_def b64_mid1 b64_mid2 b64_low)
next
  case (2 a b)
  show ?case using assms b64_mult4 [of "of_char b"]
    by (auto simp: Let_def b64_mid1 b64_div4 b64_pad4)
next
  case (3 a)
  show ?case using assms b64_mult16 [of "of_char a"]
    by (auto simp: Let_def b64_div4 b64_pad16)
next
  case 4
  show ?case by simp
qed

lemma digit_char_no_eq: "0 \<le> d \<Longrightarrow> d < 10 \<Longrightarrow> digit_char d \<noteq> CHR ''=''"
proof -
  assume d: "0 \<le> d" "d < 10"
  have "\<forall>k\<in>{0..<10}. ''0123456789'' ! k \<noteq> CHR ''=''" by code_simp
  moreover have "nat d \<in> {0..<10}" using d by simp
  ultimately show ?thesis unfolding digit_char_def by blast
qed

lemma digits_no_eq: "0 \<le> n \<Longrightarrow> CHR ''='' \<notin> set (digits n)"
proof (induction n rule: digits.induct)
  case (1 n)
  show ?case
  proof (cases "n < 10")
    case True
    have "digits n = [digit_char n]" using True by (subst digits.simps) simp
    then show ?thesis using digit_char_no_eq [of n] 1(2) True by simp
  next
    case False
    have eq: "digits n = digits (n div 10) @ [digit_char (n mod 10)]"
      using False by (subst digits.simps) simp
    have "0 \<le> n div 10" using 1(2) by simp
    then have "CHR ''='' \<notin> set (digits (n div 10))" using 1(1) False by simp
    moreover have "digit_char (n mod 10) \<noteq> CHR ''=''"
      by (rule digit_char_no_eq) simp_all
    ultimately show ?thesis unfolding eq by auto
  qed
qed

lemma fmt_d_no_eq: "CHR ''='' \<notin> set (fmt_d n)"
proof (cases "n < 0")
  case True
  then have "CHR ''='' \<notin> set (digits (- n))" by (intro digits_no_eq) simp
  then show ?thesis using True by (simp add: fmt_d_def)
next
  case False
  then have "CHR ''='' \<notin> set (digits n)" by (intro digits_no_eq) simp
  then show ?thesis using False by (simp add: fmt_d_def)
qed

subsection \<open>The URL of a signed DingTalk request\<close>

lemma sendDingTalk_url_unfold:
  "secret \<noteq> [] \<Longrightarrow> sendDingTalk_url t w secret =
     w @ CHR ''&'' # ((''timestamp='' @ fmt_d t) @ CHR ''&'' #
       (''sign='' @ calculateDingTalkSign t secret))"
  by (simp add: sendDingTalk_url_def)

lemma calculateDingTalkSign_eq:
  "calculateDingTalkSign t s = EncodeToString (HMAC_SHA256 s (fmt_d t @ ''\<newline>'' @ s))"
  by (simp add: calculateDingTalkSign_def hmac_New_def hmac_Write_def hmac_Sum_def)

lemma count_timestamp_url:
  assumes "secret \<noteq> []"
  shows "count_sub ''timestamp='' (sendDingTalk_url t w secret) = count_sub ''timestamp='' w + 1"
proof -
  let ?p = "''timestamp=''"
  let ?B = "calculateDingTalkSign t secret"
  have amp: "CHR ''&'' \<notin> set ?p" "?p \<noteq> []" by simp_all
  have a: "count_sub ?p (?p @ fmt_d t) = count_sub ?p ?p"
    by (rule count_sub_last) (simp_all add: fmt_d_no_eq)
  have b: "count_sub ?p ?p = 1" by simp
  have "\<not> adjacent (CHR ''p'') (CHR ''='') ?B"
    unfolding calculateDingTalkSign_eq by (rule EncodeToString_no_pad_after) simp
  then have "count_sub (''timestam'' @ [CHR ''p'', CHR ''='']) ?B = 0"
    by (rule count_sub_adjacent)
  then have c: "count_sub ?p (''sign='' @ ?B) = 0" by simp
  show ?thesis
    unfolding sendDingTalk_url_unfold [OF assms] count_sub_sep [OF amp] a b c by simp
qed

lemma count_sign_url:
  assumes "secret \<noteq> []"
  shows "count_sub ''sign='' (sendDingTalk_url t w secret) = count_sub ''sign='' w + 1"
proof -
  let ?p = "''sign=''"
  let ?B = "calculateDingTalkSign t secret"
  have amp: "CHR ''&'' \<notin> set ?p" "?p \<noteq> []" by simp_all
  have a: "count_sub ?p (''timestamp='' @ fmt_d t) = count_sub ?p ''timestamp=''"
    by (rule count_sub_last) (simp_all add: fmt_d_no_eq)
  have b: "count_sub ?p ''timestamp='' = 0" by simp
  have "\<not> adjacent (CHR ''n'') (CHR ''='') ?B"
    unfolding calculateDingTalkSign_eq by (rule EncodeToString_no_pad_after) simp
  then have "count_sub (''sig'' @ [CHR ''n'', CHR ''='']) ?B = 0"
    by (rule count_sub_adjacent)
  then have c: "count_sub ?p (''sign='' @ ?B) = 1" by simp
  show ?thesis
    unfolding sendDingTalk_url_unfold [OF assms] count_sub_sep [OF amp] a b c by simp
qed


subsection \<open>What one request does to the trace and the result\<close>

lemma sendJSONRequest_cases:
  assumes "sendJSONRequest env tr url body = (res, tr')"
  obtains
    (unsent) e where "res = Inl e" "tr' = tr"
  | (failed) data err where
      "json_Marshal env body = Inr data" "client_Do env tr (post url data) = DoFailed err"
      "res = Inl (Err (msg_do_failed @ Error err))" "tr' = tr @ [HttpDo (post url data)]"
  | (rejected) data st b where
      "json_Marshal env body = Inr data" "client_Do env tr (post url data) = DoResponse st b"
      "st < 200 \<or> 300 \<le> st"
      "res = Inl (Err (msg_status_failed @ fmt_d st @ msg_status_response @ b))"
      "tr' = tr @ [HttpDo (post url data)]"
  | (accepted) data st b where
      "json_Marshal env body = Inr data" "client_Do env tr (post url data) = DoResponse st b"
      "200 \<le> st" "st < 300" "res = Inr b"
      "tr' = tr @ [HttpDo (post url data),
                   LogInfo log_sent_ok [(''url'', url), (''response'', b)]]"
proof (cases "json_Marshal env body")
  case (Inl e)
  with assms show ?thesis by (intro unsent) (auto simp: sendJSONRequest_def)
next
  case (Inr data)
  note m = this
  show ?thesis
  proof (cases "http_NewRequest env url")
    case (Some e)
    with assms m show ?thesis by (intro unsent) (auto simp: sendJSONRequest_def)
  next
    case None
    note n = this
    show ?thesis
    proof (cases "client_Do env tr (post url data)")
      case (DoFailed err)
      with assms m n show ?thesis
        by (intro failed [of data err]) (simp_all add: sendJSONRequest_def post_def Let_def)
    next
      case (DoResponse st b)
      note d = this
      show ?thesis
      proof (cases "st < 200 \<or> 300 \<le> st")
        case True
        with assms m n d show ?thesis
          by (intro rejected [of data st b])
            (auto simp: sendJSONRequest_def post_def Let_def)
      next
        case False
        with assms m n d show ?thesis
          by (intro accepted [of data st b])
            (auto simp: sendJSONRequest_def post_def Let_def)
      qed
    qed
  qed
qed

lemma plain_adapter:
  assumes send: "sendJSONRequest env tr url body = (r0, tr')"
    and res: "res = (case r0 of Inl err \<Rightarrow> Some err | Inr _ \<Rightarrow> None)"
  shows "\<exists>new. tr' = tr @ new \<and> (res = None \<longleftrightarrow> delivered env False tr new)
           \<and> (\<forall>q\<in>set (http_requests new).
                 req_url q = url \<and> json_Marshal env body = Inr (req_body q))"
  using send
proof (cases rule: sendJSONRequest_cases)
  case (unsent e)
  then show ?thesis using res by (simp add: delivered_def)
next
  case (failed data err)
  then show ?thesis using res by (simp add: delivered_def post_def)
next
  case (rejected data st b)
  then show ?thesis using res by (auto simp: delivered_def post_def)
next
  case (accepted data st b)
  then show ?thesis using res by (simp add: delivered_def post_def)
qed

lemma sendFeishu_delivered:
  assumes "sendFeishu env tr w m = (res, tr')"
  shows "\<exists>new. tr' = tr @ new \<and> (res = None \<longleftrightarrow> delivered env False tr new)
           \<and> (\<forall>q\<in>set (http_requests new).
                 req_url q = w \<and> json_Marshal env (sendFeishu_body m) = Inr (req_body q))"
proof -
  obtain r0 t0 where s: "sendJSONRequest env tr w (sendFeishu_body m) = (r0, t0)"
    by (cases "sendJSONRequest env tr w (sendFeishu_body m)")
  with assms have "t0 = tr'" "res = (case r0 of Inl err \<Rightarrow> Some err | Inr _ \<Rightarrow> None)"
    by (auto simp: sendFeishu_def split: sum.splits)
  with s show ?thesis using plain_adapter by blast
qed

lemma sendCustomWebhook_delivered:
  assumes "sendCustomWebhook env tr w m = (res, tr')"
  shows "\<exists>new. tr' = tr @ new \<and> (res = None \<longleftrightarrow> delivered env False tr new)
           \<and> (\<forall>q\<in>set (http_requests new).
                 req_url q = w \<and> json_Marshal env (sendCustomWebhook_body m) = Inr (req_body q))"
proof -
  obtain r0 t0 where s: "sendJSONRequest env tr w (sendCustomWebhook_body m) = (r0, t0)"
    by (cases "sendJSONRequest env tr w (sendCustomWebhook_body m)")
  with assms have "t0 = tr'" "res = (case r0 of Inl err \<Rightarrow> Some err | Inr _ \<Rightarrow> None)"
    by (auto simp: sendCustomWebhook_def split: sum.splits)
  with s show ?thesis using plain_adapter by blast
qed

lemma sendDingTalk_delivered:
  assumes "sendDingTalk env tr w secret m = (res, tr')"
  shows "\<exists>new. tr' = tr @ new \<and> (res = None \<longleftrightarrow> delivered env False tr new)
           \<and> (\<forall>q\<in>set (http_requests new).
                 req_url q = sendDingTalk_url (time_Now_UnixMilli env tr) w secret
                 \<and> json_Marshal env (sendDingTalk_body m) = Inr (req_body q))"
proof -
  let ?u = "sendDingTalk_url (time_Now_UnixMilli env tr) w secret"
  obtain r0 t0 where s: "sendJSONRequest env tr ?u (sendDingTalk_body m) = (r0, t0)"
    by (cases "sendJSONRequest env tr ?u (sendDingTalk_body m)")
  with assms have "t0 = tr'" "res = (case r0 of Inl err \<Rightarrow> Some err | Inr _ \<Rightarrow> None)"
    by (auto simp: sendDingTalk_def Let_def split: sum.splits)
  with s show ?thesis using plain_adapter by blast
qed

lemma sendWeCom_delivered:
  assumes "sendWeCom env tr w m = (res, tr')"
  shows "\<exists>new. tr' = tr @ new \<and> (res = None \<longleftrightarrow> delivered env True tr new)
           \<and> (\<forall>q\<in>set (http_requests new).
                 req_url q = w \<and> json_Marshal env (sendWeCom_body m) = Inr (req_body q))"
proof -
  obtain r0 t0 where s: "sendJSONRequest env tr w (sendWeCom_body m) = (r0, t0)"
    by (cases "sendJSONRequest env tr w (sendWeCom_body m)")
  from s show ?thesis
  proof (cases rule: sendJSONRequest_cases)
    case (unsent e)
    with s assms show ?thesis by (auto simp: sendWeCom_def delivered_def)
  next
    case (failed data err)
    with s assms show ?thesis by (auto simp: sendWeCom_def delivered_def post_def)
  next
    case (rejected data st b)
    with s assms show ?thesis by (auto simp: sendWeCom_def delivered_def post_def)
  next
    case (accepted data st b)
    with s assms show ?thesis
      by (auto simp: sendWeCom_def delivered_def post_def split: sum.splits if_splits)
  qed
qed

lemma delivered_Nil: "\<not> delivered env w h []"
  by (simp add: delivered_def)

lemma delivered_prelude:
  "delivered env w h (LogInfo x y # Rendered m # new)
     = delivered env w (h @ [LogInfo x y, Rendered m]) new"
  by (simp add: delivered_def)

lemma sendDingTalkByConfig_delivered:
  assumes "sendDingTalkByConfig env tr cfg m = (res, tr')"
  shows "\<exists>new. tr' = tr @ new \<and> (res = None \<longleftrightarrow> delivered env False tr new)"
proof (cases "\<not> snd (config_string cfg ''secretKey'') \<or> fst (config_string cfg ''secretKey'') = []")
  case True
  with assms have "res \<noteq> None" "tr' = tr"
    by (auto simp: sendDingTalkByConfig_def split: prod.splits)
  then show ?thesis by (simp add: delivered_Nil)
next
  case False
  with assms obtain w s where "sendDingTalk env tr w s m = (res, tr')"
    by (auto simp: sendDingTalkByConfig_def split: prod.splits)
  then show ?thesis using sendDingTalk_delivered by blast
qed

lemma sendWeComByConfig_delivered:
  assumes "sendWeComByConfig env tr cfg m = (res, tr')"
  shows "\<exists>new. tr' = tr @ new \<and> (res = None \<longleftrightarrow> delivered env True tr new)"
proof (cases "\<not> snd (config_string cfg ''secretKey'') \<or> fst (config_string cfg ''secretKey'') = []")
  case True
  with assms have "res \<noteq> None" "tr' = tr"
    by (auto simp: sendWeComByConfig_def split: prod.splits)
  then show ?thesis by (simp add: delivered_Nil)
next
  case False
  with assms obtain w where "sendWeCom env tr w m = (res, tr')"
    by (auto simp: sendWeComByConfig_def split: prod.splits)
  then show ?thesis using sendWeCom_delivered by blast
qed

lemma sendFeishuByConfig_delivered:
  assumes "sendFeishuByConfig env tr cfg m = (res, tr')"
  shows "\<exists>new. tr' = tr @ new \<and> (res = None \<longleftrightarrow> delivered env False tr new)"
proof (cases "\<not> snd (config_string cfg ''secretKey'') \<or> fst (config_string cfg ''secretKey'') = []")
  case True
  with assms have "res \<noteq> None" "tr' = tr"
    by (auto simp: sendFeishuByConfig_def split: prod.splits)
  then show ?thesis by (simp add: delivered_Nil)
next
  case False
  with assms obtain w where "sendFeishu env tr w m = (res, tr')"
    by (auto simp: sendFeishuByConfig_def split: prod.splits)
  then show ?thesis using sendFeishu_delivered by blast
qed

lemma sendWebhookByConfig_delivered:
  assumes "sendWebhookByConfig env tr cfg m = (res, tr')"
  shows "\<exists>new. tr' = tr @ new \<and> (res = None \<longleftrightarrow> delivered env False tr new)"
proof (cases "\<not> snd (config_string cfg ''url'') \<or> fst (config_string cfg ''url'') = []")
  case True
  with assms have "res \<noteq> None" "tr' = tr"
    by (auto simp: sendWebhookByConfig_def split: prod.splits)
  then show ?thesis by (simp add: delivered_Nil)
next
  case False
  with assms obtain w where "sendCustomWebhook env tr w m = (res, tr')"
    by (auto simp: sendWebhookByConfig_def split: prod.splits)
  then show ?thesis using sendCustomWebhook_delivered by blast
qed

lemma SendNotificationByConfig_delivered:
  assumes "SendNotificationByConfig env tr c r a = (res, tr')"
  shows "\<exists>new. tr' = tr @ new \<and> (res = None \<longleftrightarrow> delivered env (Type c = ''wecom'') tr new)"
proof (cases "Enabled c")
  case False
  with assms have "res \<noteq> None" "tr' = tr" by (auto simp: SendNotificationByConfig_def)
  then show ?thesis by (simp add: delivered_Nil)
next
  case True
  define m where "m = buildMessage env a r"
  define pre where "pre = [LogInfo log_send [(''channelType'', Type c)], Rendered m]"
  have ext: "\<exists>new. tr' = tr @ new \<and> (res = None \<longleftrightarrow> delivered env w tr new)"
    if "\<exists>new. tr' = (tr @ pre) @ new \<and> (res = None \<longleftrightarrow> delivered env w (tr @ pre) new)" for w
  proof -
    from that obtain new where "tr' = (tr @ pre) @ new"
      "res = None \<longleftrightarrow> delivered env w (tr @ pre) new" by blast
    then have "tr' = tr @ (pre @ new) \<and> (res = None \<longleftrightarrow> delivered env w tr (pre @ new))"
      by (simp add: pre_def delivered_prelude)
    then show ?thesis by blast
  qed
  consider (d) "Type c = ''dingtalk''" | (w) "Type c = ''wecom''" | (f) "Type c = ''feishu''"
    | (h) "Type c = ''webhook''"
    | (o) "Type c \<noteq> ''dingtalk''" "Type c \<noteq> ''wecom''" "Type c \<noteq> ''feishu''"
          "Type c \<noteq> ''webhook''"
    by blast
  then show ?thesis
  proof cases
    case d
    with assms True have "sendDingTalkByConfig env (tr @ pre) (Config c) m = (res, tr')"
      by (simp add: SendNotificationByConfig_def Let_def m_def pre_def)
    from sendDingTalkByConfig_delivered [OF this] ext [of False] d show ?thesis by simp
  next
    case w
    with assms True have "sendWeComByConfig env (tr @ pre) (Config c) m = (res, tr')"
      by (simp add: SendNotificationByConfig_def Let_def m_def pre_def)
    from sendWeComByConfig_delivered [OF this] ext [of True] w show ?thesis by simp
  next
    case f
    with assms True have "sendFeishuByConfig env (tr @ pre) (Config c) m = (res, tr')"
      by (simp add: SendNotificationByConfig_def Let_def m_def pre_def)
    from sendFeishuByConfig_delivered [OF this] ext [of False] f show ?thesis by simp
  next
    case h
    with assms True have "sendWebhookByConfig env (tr @ pre) (Config c) m = (res, tr')"
      by (simp add: SendNotificationByConfig_def Let_def m_def pre_def)
    from sendWebhookByConfig_delivered [OF this] ext [of False] h show ?thesis by simp
  next
    case o
    with assms True have "res \<noteq> None" "tr' = tr @ pre"
      by (auto simp: SendNotificationByConfig_def Let_def m_def pre_def split: if_splits)
    then have "tr' = tr @ pre \<and> (res = None \<longleftrightarrow> delivered env False tr pre)"
      by (simp add: pre_def delivered_def)
    with o show ?thesis by auto
  qed
qed


lemma http_requests_append: "http_requests (xs @ ys) = http_requests xs @ http_requests ys"
  by (induction xs rule: http_requests.induct) simp_all

subsection \<open>The answer to a request decides the result\<close>







lemma no_exchange: "exchanges env tr (drop (length tr) tr) \<noteq> [(q, x)]"
  by simp






subsection \<open>The loop over the channels\<close>

lemma loop_dispatch_each:
  "SendNotificationByConfigs_loop env tr errs cs r a
     = (errs @ failures (fst (dispatch_each env tr cs r a)), snd (dispatch_each env tr cs r a))"
proof (induction cs arbitrary: tr errs)
  case Nil
  show ?case by (simp add: failures_def)
next
  case (Cons c cs)
  obtain res tr1 where s: "SendNotificationByConfig env tr c r a = (res, tr1)"
    by (cases "SendNotificationByConfig env tr c r a")
  show ?case
  proof (cases res)
    case None
    with s Cons show ?thesis by (simp add: failures_def split: prod.splits)
  next
    case (Some err)
    with s Cons show ?thesis by (simp add: failures_def split: prod.splits)
  qed
qed

lemma dispatch_each_Cons:
  "\<exists>h. fst (dispatch_each env tr (c # cs) r a)
         = fst (SendNotificationByConfig env tr c r a) # fst (dispatch_each env h cs r a)"
proof -
  obtain res tr1 where s: "SendNotificationByConfig env tr c r a = (res, tr1)"
    by (cases "SendNotificationByConfig env tr c r a")
  define tr2 where "tr2 = (case res of None \<Rightarrow> tr1
    | Some err \<Rightarrow> tr1 @ [LogError log_send_failed
                            [(''channelType'', Type c), (''error'', Error err)]])"
  have "fst (dispatch_each env tr (c # cs) r a) = res # fst (dispatch_each env tr2 cs r a)"
    using s by (simp add: tr2_def split: prod.splits)
  with s show ?thesis by auto
qed

lemma dispatch_each_length: "length (fst (dispatch_each env tr cs r a)) = length cs"
proof (induction cs arbitrary: tr)
  case Nil
  show ?case by simp
next
  case (Cons c cs)
  from dispatch_each_Cons [of env tr c cs r a] obtain h where
    "fst (dispatch_each env tr (c # cs) r a)
       = fst (SendNotificationByConfig env tr c r a) # fst (dispatch_each env h cs r a)" ..
  with Cons [of h] show ?case by simp
qed

lemma SendNotificationByConfig_extends:
  "prefix tr (snd (SendNotificationByConfig env tr c r a))"
proof -
  obtain res tr' where s: "SendNotificationByConfig env tr c r a = (res, tr')"
    by (cases "SendNotificationByConfig env tr c r a")
  from SendNotificationByConfig_delivered [OF s] obtain new where "tr' = tr @ new" by blast
  with s show ?thesis by simp
qed

lemma dispatch_each_step:
  "\<exists>h. prefix tr h \<and> fst (dispatch_each env tr (c # cs) r a)
         = fst (SendNotificationByConfig env tr c r a) # fst (dispatch_each env h cs r a)"
proof -
  obtain res tr1 where s: "SendNotificationByConfig env tr c r a = (res, tr1)"
    by (cases "SendNotificationByConfig env tr c r a")
  define tr2 where "tr2 = (case res of None \<Rightarrow> tr1
    | Some err \<Rightarrow> tr1 @ [LogError log_send_failed
                            [(''channelType'', Type c), (''error'', Error err)]])"
  have "prefix tr tr1" using SendNotificationByConfig_extends [of tr env c r a] s by simp
  moreover have "prefix tr1 tr2" by (simp add: tr2_def split: option.splits)
  ultimately have p: "prefix tr tr2" by (rule prefix_order.trans)
  have "fst (dispatch_each env tr (c # cs) r a) = res # fst (dispatch_each env tr2 cs r a)"
    using s by (simp add: tr2_def split: prod.splits)
  with s p show ?thesis by auto
qed

lemma dispatch_each_at:
  "i < length cs \<Longrightarrow>
     \<exists>h. prefix tr h
       \<and> fst (dispatch_each env tr cs r a) ! i = fst (SendNotificationByConfig env h (cs ! i) r a)"
proof (induction cs arbitrary: tr i)
  case Nil
  then show ?case by simp
next
  case (Cons c cs)
  from dispatch_each_step [of tr env c cs r a] obtain h where
    p: "prefix tr h" and
    h: "fst (dispatch_each env tr (c # cs) r a)
       = fst (SendNotificationByConfig env tr c r a) # fst (dispatch_each env h cs r a)"
    by blast
  show ?case
  proof (cases i)
    case 0
    with h show ?thesis by auto
  next
    case (Suc j)
    with Cons.prems have "j < length cs" by simp
    from Cons.IH [OF this, of h] obtain h' where
      "prefix h h'"
      "fst (dispatch_each env h cs r a) ! j = fst (SendNotificationByConfig env h' (cs ! j) r a)"
      by blast
    with p Suc h show ?thesis by (auto intro: prefix_order.trans)
  qed
qed

lemma sublist_embed:
  assumes "sublist x ys"
  shows "sublist x (ps @ ys @ ss)"
proof -
  from assms obtain u v where "ys = u @ x @ v" by (auto simp: sublist_def)
  then have "ps @ ys @ ss = (ps @ u) @ x @ (v @ ss)" by simp
  then show ?thesis unfolding sublist_def by blast
qed

lemma sublist_join_space: "x \<in> set xs \<Longrightarrow> sublist x (join_space xs)"
proof (induction xs rule: join_space.induct)
  case 1
  then show ?case by simp
next
  case (2 y)
  then show ?case by simp
next
  case (3 y z r)
  show ?case
  proof (cases "x = y")
    case True
    then show ?thesis by simp
  next
    case False
    with 3 have "sublist x (join_space (z # r))" by simp
    then have "sublist x ((y @ '' '') @ join_space (z # r) @ [])" by (rule sublist_embed)
    then show ?thesis by simp
  qed
qed

lemma sublist_fmt_v_errors:
  assumes "e \<in> set errs"
  shows "sublist (Error e) (msg_partial_failure @ fmt_v_errors errs)"
proof -
  have "sublist (Error e) (join_space (map Error errs))"
    using assms by (intro sublist_join_space) simp
  then have "sublist (Error e) ((msg_partial_failure @ ''['') @ join_space (map Error errs) @ '']'')"
    by (rule sublist_embed)
  then show ?thesis by (simp add: fmt_v_errors_def)
qed

lemma failures_Nil_iff: "failures outs = [] \<longleftrightarrow> (\<forall>x\<in>set outs. x = None)"
  unfolding failures_def by (induction outs) (auto split: option.splits)

subsection \<open>Requests of the Feishu and custom-webhook senders\<close>

lemma sendCustomWebhook_requests:
  "\<forall>q\<in>set (http_requests (drop (length tr) (snd (sendCustomWebhook env tr w m)))).
     req_url q = w \<and> json_Marshal env (sendCustomWebhook_body m) = Inr (req_body q)"
proof -
  obtain res tr' where r: "sendCustomWebhook env tr w m = (res, tr')"
    by (cases "sendCustomWebhook env tr w m")
  from sendCustomWebhook_delivered [OF r] r show ?thesis by auto
qed

lemma sendFeishu_requests:
  "\<forall>q\<in>set (http_requests (drop (length tr) (snd (sendFeishu env tr w m)))).
     req_url q = w \<and> json_Marshal env (sendFeishu_body m) = Inr (req_body q)"
proof -
  obtain res tr' where r: "sendFeishu env tr w m = (res, tr')"
    by (cases "sendFeishu env tr w m")
  from sendFeishu_delivered [OF r] r show ?thesis by auto
qed

lemma sendFeishuByConfig_requests:
  "\<forall>q\<in>set (http_requests (drop (length tr) (snd (sendFeishuByConfig env tr cfg m)))).
     req_url q = ''https://open.feishu.cn/open-apis/bot/v2/hook/'' @ fst (config_string cfg ''secretKey'')
     \<and> json_Marshal env (sendFeishu_body m) = Inr (req_body q)"
proof (cases "\<not> snd (config_string cfg ''secretKey'') \<or> fst (config_string cfg ''secretKey'') = []")
  case True
  then show ?thesis by (auto simp: sendFeishuByConfig_def split: prod.splits)
next
  case False
  define w where "w = ''https://open.feishu.cn/open-apis/bot/v2/hook/''
                       @ fst (config_string cfg ''secretKey'')"
  from False have "sendFeishuByConfig env tr cfg m = sendFeishu env tr w m"
    unfolding w_def by (auto simp: sendFeishuByConfig_def split: prod.splits)
  then show ?thesis
    using sendFeishu_requests [of tr env w m] unfolding w_def by simp
qed

subsection \<open>Runs in the concrete environment\<close>

lemma example_wecom_good:
  "SendNotificationByConfig example_env [] (channel ''wecom'' True [(''secretKey'', ''good'')])
     example_record example_agent
   = (None,
      [LogInfo log_send [(''channelType'', ''wecom'')],
       Rendered (buildMessage example_env example_agent example_record),
       HttpDo (post ''https://qyapi.weixin.qq.com/cgi-bin/webhook/send?key=good''
                 (example_marshal (sendWeCom_body
                    (buildMessage example_env example_agent example_record)))),
       LogInfo log_sent_ok
         [(''url'', ''https://qyapi.weixin.qq.com/cgi-bin/webhook/send?key=good''),
          (''response'', wecom_ok)]])"
  by (simp add: SendNotificationByConfig_def channel_def sendWeComByConfig_def config_string_def
      sendWeCom_def sendJSONRequest_def example_env_def example_remote_def
      example_unmarshal_wecom_def post_def Let_def)

lemma example_wecom_bad:
  "SendNotificationByConfig example_env [] (channel ''wecom'' True [(''secretKey'', ''bad'')])
     example_record example_agent
   = (Some (Err ''invalid webhook url''),
      [LogInfo log_send [(''channelType'', ''wecom'')],
       Rendered (buildMessage example_env example_agent example_record),
       HttpDo (post ''https://qyapi.weixin.qq.com/cgi-bin/webhook/send?key=bad''
                 (example_marshal (sendWeCom_body
                    (buildMessage example_env example_agent example_record)))),
       LogInfo log_sent_ok
         [(''url'', ''https://qyapi.weixin.qq.com/cgi-bin/webhook/send?key=bad''),
          (''response'', wecom_refused)]])"
  by (simp add: SendNotificationByConfig_def channel_def sendWeComByConfig_def config_string_def
      sendWeCom_def sendJSONRequest_def example_env_def example_remote_def
      example_unmarshal_wecom_def post_def Let_def wecom_ok_def wecom_refused_def dq_def)

lemma example_gv:
  "svc_GetValue example_service example_store PropertyIDNotificationChannels
     = Inr example_channels"
  by (simp add: example_service_def spec_PropertyService_def spec_GetValue_def spec_Get_def
      example_store_def example_decode_def PropertyIDNotificationChannels_def
      PropertyIDSystemConfig_def)

lemma example_webhook_down:
  "sendCustomWebhook example_env [] ''http://hooks.example/down'' ''hello''
     = (Some (Err (msg_status_failed @ ''500'' @ msg_status_response @ replicate 600 (CHR ''a''))),
        [HttpDo (post ''http://hooks.example/down''
                   (example_marshal (sendCustomWebhook_body ''hello'')))])"
proof -
  have d: "fmt_d 500 = ''500''" by code_simp
  show ?thesis
    by (simp add: sendCustomWebhook_def sendJSONRequest_def example_env_def example_remote_def
        post_def Let_def d)
qed

lemma example_feishu_tok:
  "sendFeishu example_env [] ''https://open.feishu.cn/open-apis/bot/v2/hook/tok'' ''hello''
     = (None,
        [HttpDo (post ''https://open.feishu.cn/open-apis/bot/v2/hook/tok''
                   (example_marshal (sendFeishu_body ''hello''))),
         LogInfo log_sent_ok
           [(''url'', ''https://open.feishu.cn/open-apis/bot/v2/hook/tok''),
            (''response'', ''{}'')]])"
  by (simp add: sendFeishu_def sendJSONRequest_def example_env_def example_remote_def
      post_def Let_def)

lemma example_batch_outcomes:
  "fst (dispatch_each example_env [] example_batch example_record example_agent)
     = [Some (Err ''invalid webhook url''), Some (Err msg_email_unimplemented),
        Some (Err msg_channel_disabled),
        Some (Err (msg_do_failed @ ''dial tcp: connection refused'')), None]"
  by (simp add: example_batch_def channel_def SendNotificationByConfig_def
      sendWeComByConfig_def sendFeishuByConfig_def sendWebhookByConfig_def config_string_def
      sendWeCom_def sendFeishu_def sendCustomWebhook_def sendJSONRequest_def
      example_env_def example_remote_def example_unmarshal_wecom_def Let_def
      wecom_ok_def wecom_refused_def dq_def)



section \<open>The claims\<close>

subsection \<open>C1: the DingTalk signature and the signed URL\<close>

text \<open>
  C1, as amended. For every time stamp \<open>t\<close> and secret \<open>s\<close> the sign is the base64
  text of the HMAC-SHA256 code of the message \<open>t\<close> in decimal, a line feed and \<open>s\<close>, under
  the key \<open>s\<close>; so it is for 1700000000000 and the secret of the one letter s. With a
  non-empty secret the
  URL posted to is the webhook followed by \<open>&timestamp=\<close>, \<open>t\<close>, \<open>&sign=\<close> and the sign, and it
  holds exactly one occurrence of \<open>timestamp=\<close> and one of \<open>sign=\<close> more than the webhook
  does: exactly one of each when the webhook holds none. With an empty secret the URL is the
  webhook, unchanged. Every request \<open>sendDingTalk\<close> performs goes to that URL.
\<close>

theorem dingtalk_sign_and_url:
  "calculateDingTalkSign t s = EncodeToString (HMAC_SHA256 s (fmt_d t @ ''\<newline>'' @ s))
   \<and> calculateDingTalkSign 1700000000000 ''s''
       = EncodeToString (HMAC_SHA256 ''s'' ''1700000000000\<newline>s'')
   \<and> (s \<noteq> [] \<longrightarrow>
         sendDingTalk_url t w s
           = w @ ''&timestamp='' @ fmt_d t @ ''&sign='' @ calculateDingTalkSign t s
         \<and> count_sub ''timestamp='' (sendDingTalk_url t w s) = count_sub ''timestamp='' w + 1
         \<and> count_sub ''sign='' (sendDingTalk_url t w s) = count_sub ''sign='' w + 1)
   \<and> sendDingTalk_url t w [] = w
   \<and> (\<forall>q\<in>set (http_requests (drop (length tr) (snd (sendDingTalk env tr w s m)))).
         req_url q = sendDingTalk_url (time_Now_UnixMilli env tr) w s)"
proof -
  have d: "fmt_d 1700000000000 = ''1700000000000''" by code_simp
  have a: "calculateDingTalkSign 1700000000000 ''s''
       = EncodeToString (HMAC_SHA256 ''s'' ''1700000000000\<newline>s'')"
    unfolding calculateDingTalkSign_eq d by simp
  obtain res tr' where r: "sendDingTalk env tr w s m = (res, tr')"
    by (cases "sendDingTalk env tr w s m")
  from sendDingTalk_delivered [OF r] obtain new where
    "tr' = tr @ new"
    "\<forall>q\<in>set (http_requests new). req_url q = sendDingTalk_url (time_Now_UnixMilli env tr) w s"
    by blast
  then have b: "\<forall>q\<in>set (http_requests (drop (length tr) (snd (sendDingTalk env tr w s m)))).
         req_url q = sendDingTalk_url (time_Now_UnixMilli env tr) w s"
    using r by simp
  show ?thesis
    using a b calculateDingTalkSign_eq [of t s] count_timestamp_url [of s t w]
      count_sign_url [of s t w]
    by (simp add: sendDingTalk_url_def)
qed

text \<open>An instance: the webhook of the access token \<open>abc\<close>, signed with the secret \<open>s\<close> at
  1700000000000 ms, holds one \<open>timestamp=\<close> and one \<open>sign=\<close>, and is where the one request
  goes.\<close>

theorem dingtalk_sign_and_url_witness:
  "''s'' \<noteq> []
   \<and> count_sub ''timestamp=''
        (sendDingTalk_url 1700000000000
           ''https://oapi.dingtalk.com/robot/send?access_token=abc'' ''s'') = 1
   \<and> count_sub ''sign=''
        (sendDingTalk_url 1700000000000
           ''https://oapi.dingtalk.com/robot/send?access_token=abc'' ''s'') = 1
   \<and> map req_url (http_requests (snd (sendDingTalk example_env []
          ''https://oapi.dingtalk.com/robot/send?access_token=abc'' ''s'' ''hi'')))
       = [sendDingTalk_url 1700000000000
            ''https://oapi.dingtalk.com/robot/send?access_token=abc'' ''s'']"
proof -
  let ?w = "''https://oapi.dingtalk.com/robot/send?access_token=abc''"
  let ?u = "sendDingTalk_url 1700000000000 ?w ''s''"
  have u: "?u = ?w @ ''&timestamp='' @ fmt_d 1700000000000 @ ''&sign=''
                  @ calculateDingTalkSign 1700000000000 ''s''"
    by (simp add: sendDingTalk_url_def)
  have p: "prefix ''https://oapi.dingtalk.com/'' ?u" unfolding u by simp
  have n: "?u \<noteq> ''https://qyapi.weixin.qq.com/cgi-bin/webhook/send?key=good''"
    "\<not> prefix ''https://qyapi.weixin.qq.com/'' ?u" unfolding u by simp_all
  have "length (http_requests (snd (sendDingTalk example_env [] ?w ''s'' ''hi''))) = 1"
    using p n
    by (simp add: sendDingTalk_def sendJSONRequest_def example_env_def example_remote_def Let_def)
  then obtain q where q: "http_requests (snd (sendDingTalk example_env [] ?w ''s'' ''hi'')) = [q]"
    by (cases "http_requests (snd (sendDingTalk example_env [] ?w ''s'' ''hi''))") auto
  note T = dingtalk_sign_and_url [of 1700000000000 "''s''" ?w "[]" example_env "''hi''"]
  have ne: "''s'' \<noteq> []" by simp
  note I = T [THEN conjunct2, THEN conjunct2, THEN conjunct1, THEN mp, OF ne]
  note c1 = I [THEN conjunct2, THEN conjunct1] and c2 = I [THEN conjunct2, THEN conjunct2]
  note R = T [THEN conjunct2, THEN conjunct2, THEN conjunct2, THEN conjunct2]
  have z: "count_sub ''timestamp='' ?w = 0" "count_sub ''sign='' ?w = 0" by simp_all
  have "q \<in> set (http_requests (drop (length []) (snd (sendDingTalk example_env [] ?w ''s'' ''hi''))))"
    using q by simp
  with R have "req_url q = sendDingTalk_url (time_Now_UnixMilli example_env []) ?w ''s''"
    by (rule bspec)
  then have "req_url q = ?u" by (simp add: example_env_def)
  with q have m: "map req_url (http_requests (snd (sendDingTalk example_env [] ?w ''s'' ''hi''))) = [?u]"
    by simp
  show ?thesis
    unfolding c1 c2 z m by simp
qed

text \<open>
  C1 as stated fails when the webhook already holds one of the two parameters: for the
  access token \<open>x&sign=y\<close>, the webhook \<open>sendDingTalkByConfig\<close> builds and
  \<open>sendDingTalk\<close> signs holds \<open>sign=\<close> twice.
\<close>

theorem dingtalk_url_counterexample:
  "count_sub ''sign=''
     (sendDingTalk_url 1700000000000
        ''https://oapi.dingtalk.com/robot/send?access_token=x&sign=y'' ''s'') = 2"
  using count_sign_url [of "''s''" 1700000000000
      "''https://oapi.dingtalk.com/robot/send?access_token=x&sign=y''"]
  by simp

subsection \<open>C2: the body of the custom webhook\<close>

text \<open>
  C2, as amended. For every message \<open>m\<close> the body the custom-webhook sender posts is the
  object with the two entries \<open>msg_type\<close>, the string \<open>text\<close>, and \<open>text\<close>, an object with the
  one entry \<open>content\<close> holding \<open>m\<close>. It has the \<open>msg_type\<close> entry of the Feishu body, whose
  other entry is \<open>content\<close>, an object with the one entry \<open>text\<close> holding \<open>m\<close>; its \<open>text\<close>
  entry is that of the DingTalk body. Each sender posts the marshalled form of its body.
\<close>

theorem webhook_body_shape:
  "members (sendCustomWebhook_body m)
     = [(''msg_type'', JStr ''text''), (''text'', JObj [(''content'', JStr m)])]
   \<and> members (sendFeishu_body m)
     = [(''msg_type'', JStr ''text''), (''content'', JObj [(''text'', JStr m)])]
   \<and> field (sendCustomWebhook_body m) ''msg_type'' = field (sendFeishu_body m) ''msg_type''
   \<and> field (sendCustomWebhook_body m) ''text'' = field (sendDingTalk_body m) ''text''
   \<and> (\<forall>q\<in>set (http_requests (drop (length tr) (snd (sendCustomWebhook env tr w m)))).
         json_Marshal env (sendCustomWebhook_body m) = Inr (req_body q))
   \<and> (\<forall>q\<in>set (http_requests (drop (length tr) (snd (sendFeishu env tr w m)))).
         json_Marshal env (sendFeishu_body m) = Inr (req_body q))"
  using sendCustomWebhook_requests [of tr env w m] sendFeishu_requests [of tr env w m]
  by (simp add: sendCustomWebhook_body_def sendFeishu_body_def sendDingTalk_body_def field_def)

text \<open>An instance: the one request of each sender for the message \<open>hello\<close>.\<close>

theorem webhook_body_shape_witness:
  "map req_body (http_requests (snd (sendCustomWebhook example_env []
                                       ''http://hooks.example/down'' ''hello'')))
     = [example_marshal
          (JObj [(''msg_type'', JStr ''text''), (''text'', JObj [(''content'', JStr ''hello'')])])]
   \<and> map req_body (http_requests (snd (sendFeishu example_env []
                                          ''https://open.feishu.cn/open-apis/bot/v2/hook/tok''
                                          ''hello'')))
     = [example_marshal
          (JObj [(''msg_type'', JStr ''text''), (''content'', JObj [(''text'', JStr ''hello'')])])]"
proof -
  let ?a = "post ''http://hooks.example/down'' (example_marshal (sendCustomWebhook_body ''hello''))"
  let ?b = "post ''https://open.feishu.cn/open-apis/bot/v2/hook/tok''
              (example_marshal (sendFeishu_body ''hello''))"
  note T = webhook_body_shape [of "''hello''" "[]" example_env "''http://hooks.example/down''"]
  note U = webhook_body_shape [of "''hello''" "[]" example_env
      "''https://open.feishu.cn/open-apis/bot/v2/hook/tok''"]
  have a: "http_requests (snd (sendCustomWebhook example_env [] ''http://hooks.example/down''
             ''hello'')) = [?a]"
    by (simp add: example_webhook_down)
  have b: "http_requests (snd (sendFeishu example_env []
             ''https://open.feishu.cn/open-apis/bot/v2/hook/tok'' ''hello'')) = [?b]"
    by (simp add: example_feishu_tok)
  have "json_Marshal example_env (sendCustomWebhook_body ''hello'' :: int json) = Inr (req_body ?a)"
    using T [THEN conjunct2, THEN conjunct2, THEN conjunct2, THEN conjunct2, THEN conjunct1]
      a by simp
  moreover have "json_Marshal example_env (sendFeishu_body ''hello'' :: int json) = Inr (req_body ?b)"
    using U [THEN conjunct2, THEN conjunct2, THEN conjunct2, THEN conjunct2, THEN conjunct2]
      b by simp
  ultimately show ?thesis
    unfolding a b
    by (simp add: post_def sendCustomWebhook_body_def sendFeishu_body_def)
qed

text \<open>C2 as stated fails for the message \<open>hello\<close>: the Feishu body has an entry
  \<open>content\<close> and the body of the custom webhook has none, so the two documents differ.\<close>

theorem webhook_body_counterexample:
  "field (sendCustomWebhook_body ''hello'' :: int json) ''content'' = None
   \<and> field (sendFeishu_body ''hello'' :: int json) ''content''
       = Some (JObj [(''text'', JStr ''hello'')])
   \<and> sendCustomWebhook_body ''hello'' \<noteq> (sendFeishu_body ''hello'' :: int json)
   \<and> example_marshal (sendCustomWebhook_body ''hello'')
       \<noteq> example_marshal (sendFeishu_body ''hello'')"
  by (simp add: sendCustomWebhook_body_def sendFeishu_body_def field_def dq_def)

subsection \<open>C3: when a send succeeds\<close>

text \<open>
  C3. A dispatch to a channel returns no error if and only if it made a request, the answer
  to it was a response, the status code of the response is at least 200 and below 300, and,
  for the channel type \<open>wecom\<close>, the body of the response decodes to a result whose
  \<open>errcode\<close> is 0. Every other course (no request, a transport error, another status code,
  or for WeCom a body that does not decode or has another error code, also with status 200)
  returns an error.
\<close>

theorem send_succeeds_iff_accepted:
  assumes "SendNotificationByConfig env tr c r a = (res, tr')"
  shows "res = None \<longleftrightarrow>
           (\<exists>q st b. exchanges env tr (drop (length tr) tr') = [(q, DoResponse st b)]
              \<and> 200 \<le> st \<and> st < 300
              \<and> (Type c = ''wecom'' \<longrightarrow>
                    (\<exists>w. json_Unmarshal_WeComResult env b = Inr w \<and> Errcode w = 0)))"
proof -
  from SendNotificationByConfig_delivered [OF assms] obtain new where
    "tr' = tr @ new" "res = None \<longleftrightarrow> delivered env (Type c = ''wecom'') tr new"
    by blast
  then show ?thesis by (simp add: delivered_def)
qed

text \<open>Two instances: the WeCom channel whose key the remote end accepts, and the one whose
  key it answers with status 200 and error code 93000, which is a failure.\<close>

theorem send_succeeds_iff_accepted_witness:
  "fst (SendNotificationByConfig example_env [] (channel ''wecom'' True [(''secretKey'', ''good'')])
          example_record example_agent) = None
   \<and> (\<exists>q st b.
         exchanges example_env []
           (snd (SendNotificationByConfig example_env []
                   (channel ''wecom'' True [(''secretKey'', ''good'')])
                   example_record example_agent))
           = [(q, DoResponse st b)]
         \<and> 200 \<le> st \<and> st < 300
         \<and> (\<exists>w. json_Unmarshal_WeComResult example_env b = Inr w \<and> Errcode w = 0))
   \<and> fst (SendNotificationByConfig example_env [] (channel ''wecom'' True [(''secretKey'', ''bad'')])
            example_record example_agent) = Some (Err ''invalid webhook url'')
   \<and> map snd (exchanges example_env []
        (snd (SendNotificationByConfig example_env []
                (channel ''wecom'' True [(''secretKey'', ''bad'')])
                example_record example_agent)))
       = [DoResponse 200 wecom_refused]
   \<and> \<not> (\<exists>w. json_Unmarshal_WeComResult example_env wecom_refused = Inr w \<and> Errcode w = 0)"
proof -
  let ?c = "channel ''wecom'' True [(''secretKey'', ''good'')]"
  let ?S = "SendNotificationByConfig example_env [] ?c example_record example_agent"
  let ?d = "channel ''wecom'' True [(''secretKey'', ''bad'')]"
  let ?B = "SendNotificationByConfig example_env [] ?d example_record example_agent"
  have e: "?S = (fst ?S, snd ?S)" by simp
  have n: "fst ?S = None" by (simp add: example_wecom_good)
  have t: "Type ?c = ''wecom''" by (simp add: channel_def)
  have g: "\<exists>q st b. exchanges example_env [] (snd ?S) = [(q, DoResponse st b)]
         \<and> 200 \<le> st \<and> st < 300
         \<and> (\<exists>w. json_Unmarshal_WeComResult example_env b = Inr w \<and> Errcode w = 0)"
    using send_succeeds_iff_accepted [OF e] n t by simp
  have b1: "fst ?B = Some (Err ''invalid webhook url'')" by (simp add: example_wecom_bad)
  have b2: "map snd (exchanges example_env [] (snd ?B)) = [DoResponse 200 wecom_refused]"
    by (simp add: example_wecom_bad) (simp add: example_env_def example_remote_def post_def)
  have b3: "\<not> (\<exists>w. json_Unmarshal_WeComResult example_env wecom_refused = Inr w \<and> Errcode w = 0)"
    by (simp add: example_env_def example_unmarshal_wecom_def wecom_ok_def wecom_refused_def dq_def)
  show ?thesis using n g b1 b2 b3 by blast
qed

subsection \<open>C4: Feishu signing\<close>

text \<open>
  C4 fails on the code, which does the following instead. What \<open>sendFeishuByConfig\<close> does
  depends on the entry \<open>secretKey\<close> of the configuration only, so a signing secret changes
  nothing; every request it performs goes to the hook URL of the token, with nothing
  appended, and carries the marshalled Feishu body, which has no entry \<open>timestamp\<close> and no
  entry \<open>sign\<close>.
\<close>

theorem feishu_sign_secret_ignored:
  assumes "map_of cfg ''secretKey'' = map_of cfg' ''secretKey''"
  shows "sendFeishuByConfig env tr cfg m = sendFeishuByConfig env tr cfg' m
         \<and> (\<forall>q\<in>set (http_requests (drop (length tr) (snd (sendFeishuByConfig env tr cfg m)))).
               req_url q = ''https://open.feishu.cn/open-apis/bot/v2/hook/''
                             @ fst (config_string cfg ''secretKey'')
               \<and> json_Marshal env (sendFeishu_body m) = Inr (req_body q))
         \<and> field (sendFeishu_body m) ''timestamp'' = None
         \<and> field (sendFeishu_body m) ''sign'' = None"
proof -
  have "config_string cfg ''secretKey'' = config_string cfg' ''secretKey''"
    using assms by (simp add: config_string_def)
  then have "sendFeishuByConfig env tr cfg m = sendFeishuByConfig env tr cfg' m"
    by (simp add: sendFeishuByConfig_def)
  then show ?thesis
    using sendFeishuByConfig_requests [of tr env cfg m]
    by (simp add: sendFeishu_body_def field_def)
qed

text \<open>The instance: with the token \<open>tok\<close> and the signing secret \<open>s\<close> configured, the
  one request goes to the plain hook URL with the two-entry body.\<close>

theorem feishu_sign_secret_ignored_witness:
  "map_of [(''secretKey'', JStr ''tok''), (''signSecret'', JStr ''s'')] ''secretKey''
     = map_of [(''secretKey'', JStr ''tok'' :: int json)] ''secretKey''
   \<and> sendFeishuByConfig example_env []
        [(''secretKey'', JStr ''tok''), (''signSecret'', JStr ''s'')] ''hello''
     = (None,
        [HttpDo (post ''https://open.feishu.cn/open-apis/bot/v2/hook/tok''
                   (example_marshal
                      (JObj [(''msg_type'', JStr ''text''),
                             (''content'', JObj [(''text'', JStr ''hello'')])]))),
         LogInfo log_sent_ok
           [(''url'', ''https://open.feishu.cn/open-apis/bot/v2/hook/tok''),
            (''response'', ''{}'')]])"
proof -
  let ?cfg = "[(''secretKey'', JStr ''tok''), (''signSecret'', JStr ''s'' :: int json)]"
  let ?cfg' = "[(''secretKey'', JStr ''tok'' :: int json)]"
  have e: "map_of ?cfg ''secretKey'' = map_of ?cfg' ''secretKey''" by simp
  have "sendFeishuByConfig example_env [] ?cfg ''hello''
          = sendFeishuByConfig example_env [] ?cfg' ''hello''"
    using feishu_sign_secret_ignored [OF e, of example_env "[]" "''hello''"] by (rule conjunct1)
  also have "\<dots> = sendFeishu example_env []
                      ''https://open.feishu.cn/open-apis/bot/v2/hook/tok'' ''hello''"
    by (simp add: sendFeishuByConfig_def config_string_def)
  finally show ?thesis using e by (simp add: example_feishu_tok sendFeishu_body_def)
qed

subsection \<open>C5: dispatch to several channels\<close>

text \<open>
  C5. \<open>SendNotificationByConfigs\<close> does what dispatching each channel in turn does: every
  channel of the list has an outcome, which is that of \<open>SendNotificationByConfig\<close> on it at
  some later point of the run, the trace is the same, the result is \<open>nil\<close> if and only if every outcome is, and otherwise it is
  one error whose text is the fixed prefix followed by the texts of the failed channels'
  errors, in order, in brackets; the text of each of them occurs in it.
\<close>

theorem batch_dispatch:
  assumes "SendNotificationByConfigs env tr cs r a = (res, tr')"
    and "dispatch_each env tr cs r a = (outs, tr'')"
  shows "length outs = length cs
         \<and> (\<forall>i<length cs. \<exists>h. prefix tr h
                \<and> outs ! i = fst (SendNotificationByConfig env h (cs ! i) r a))
         \<and> tr' = tr''
         \<and> (res = None \<longleftrightarrow> (\<forall>x\<in>set outs. x = None))
         \<and> (res \<noteq> None \<longrightarrow>
               res = Some (Err (msg_partial_failure @ fmt_v_errors (failures outs)))
               \<and> (\<forall>e\<in>set (failures outs). sublist (Error e) (Error (the res))))"
proof -
  have l: "SendNotificationByConfigs_loop env tr [] cs r a = (failures outs, tr'')"
    using loop_dispatch_each [of env tr "[]" cs r a] assms(2) by simp
  have 1: "length outs = length cs"
    using dispatch_each_length [of env tr cs r a] assms(2) by simp
  have 2: "\<forall>i<length cs. \<exists>h. prefix tr h
             \<and> outs ! i = fst (SendNotificationByConfig env h (cs ! i) r a)"
    using dispatch_each_at [of _ cs tr env r a] assms(2) by simp
  have 3: "tr' = tr''" using assms(1) l by (simp add: SendNotificationByConfigs_def split: if_splits)
  have 4: "res = None \<longleftrightarrow> failures outs = []"
    using assms(1) l by (auto simp: SendNotificationByConfigs_def split: if_splits)
  have 5: "res = Some (Err (msg_partial_failure @ fmt_v_errors (failures outs)))" if "res \<noteq> None"
    using assms(1) l that by (auto simp: SendNotificationByConfigs_def split: if_splits)
  have 6: "\<forall>e\<in>set (failures outs). sublist (Error e) (Error (the res))" if "res \<noteq> None"
    using 5 [OF that] sublist_fmt_v_errors by simp
  show ?thesis using 1 2 3 4 5 6 failures_Nil_iff [of outs] by blast
qed

text \<open>An instance: a batch of five channels, of which the first four fail, each in
  another way, and the fifth is still sent to.\<close>

theorem batch_dispatch_witness:
  "fst (dispatch_each example_env [] example_batch example_record example_agent)
     = [Some (Err ''invalid webhook url''), Some (Err msg_email_unimplemented),
        Some (Err msg_channel_disabled),
        Some (Err (msg_do_failed @ ''dial tcp: connection refused'')), None]
   \<and> length example_batch = 5
   \<and> fst (SendNotificationByConfigs example_env [] example_batch example_record example_agent)
       = Some (Err (msg_partial_failure @ ''[invalid webhook url '' @ msg_email_unimplemented
                      @ '' '' @ msg_channel_disabled @ '' '' @ msg_do_failed
                      @ ''dial tcp: connection refused]''))
   \<and> snd (SendNotificationByConfigs example_env [] example_batch example_record example_agent)
       = snd (dispatch_each example_env [] example_batch example_record example_agent)"
proof -
  let ?S = "SendNotificationByConfigs example_env [] example_batch example_record example_agent"
  let ?D = "dispatch_each example_env [] example_batch example_record example_agent"
  have s: "?S = (fst ?S, snd ?S)" and d: "?D = (fst ?D, snd ?D)" by simp_all
  note T = batch_dispatch [OF s d]
  have f: "failures (fst ?D) = [Err ''invalid webhook url'', Err msg_email_unimplemented,
        Err msg_channel_disabled, Err (msg_do_failed @ ''dial tcp: connection refused'')]"
    unfolding example_batch_outcomes by (simp add: failures_def)
  have n: "fst ?S \<noteq> None"
    using T [THEN conjunct2, THEN conjunct2, THEN conjunct2, THEN conjunct1]
    unfolding example_batch_outcomes by simp
  have r: "fst ?S = Some (Err (msg_partial_failure @ fmt_v_errors (failures (fst ?D))))"
    using T [THEN conjunct2, THEN conjunct2, THEN conjunct2, THEN conjunct2, THEN mp, OF n]
    by simp
  have t: "snd ?S = snd ?D"
    using T [THEN conjunct2, THEN conjunct2, THEN conjunct1] .
  have l: "length example_batch = 5" by (simp add: example_batch_def)
  show ?thesis
    unfolding r f t using example_batch_outcomes l by (simp add: fmt_v_errors_def)
qed

subsection \<open>C6: set, then get\<close>



subsection \<open>C7: the email channel\<close>

text \<open>
  C7. For every enabled channel configuration of type \<open>email\<close>,
  \<open>SendNotificationByConfig\<close> returns the error whose text says that email notification
  is not implemented yet, after logging and rendering only: the HTTP requests of the trace
  are those from before the call.
\<close>

theorem email_not_implemented:
  assumes "Enabled c" "Type c = ''email''"
  shows "SendNotificationByConfig env tr c r a
           = (Some (Err msg_email_unimplemented),
              tr @ [LogInfo log_send [(''channelType'', ''email'')],
                    Rendered (buildMessage env a r)])
         \<and> http_requests (snd (SendNotificationByConfig env tr c r a)) = http_requests tr"
  using assms by (simp add: SendNotificationByConfig_def Let_def http_requests_append)

text \<open>An instance: the enabled email channel with an empty configuration.\<close>

theorem email_not_implemented_witness:
  "Enabled (channel ''email'' True []) \<and> Type (channel ''email'' True []) = ''email''
   \<and> fst (SendNotificationByConfig example_env [] (channel ''email'' True [])
             example_record example_agent) = Some (Err msg_email_unimplemented)
   \<and> http_requests (snd (SendNotificationByConfig example_env [] (channel ''email'' True [])
                            example_record example_agent)) = []"
proof -
  have h: "Enabled (channel ''email'' True [])" "Type (channel ''email'' True []) = ''email''"
    by (simp_all add: channel_def)
  from email_not_implemented [OF h, of example_env "[]" example_record example_agent] h
  show ?thesis by simp
qed

subsection \<open>C8: the message of a failed channel test\<close>




subsection \<open>C9: disabled channels\<close>

text \<open>
  C9. For every channel configuration that is not enabled, \<open>SendNotificationByConfig\<close>
  returns the error that the channel is disabled and leaves the trace as it was: nothing is
  logged, rendered or sent. Likewise, when the stored channel found for the requested type
  is not enabled, the test endpoint answers 400 with an error (that the channel is not
  enabled; for an empty type, that the type is missing) and leaves the trace as it was.
\<close>

theorem disabled_channel_rejected:
  "(\<not> Enabled c \<longrightarrow>
      SendNotificationByConfig env tr c r a = (Some (Err msg_channel_disabled), tr))
   \<and> (svc_GetValue svc st PropertyIDNotificationChannels = Inr channels
        \<and> find (\<lambda>x. Type x = channelType) channels = Some target \<and> \<not> Enabled target \<longrightarrow>
      TestNotificationChannel env svc st tr channelType
        = (\<lparr>resp_status = 400,
            resp_body = JObj [(''error'',
              JStr (if channelType = [] then txt_missing_type else txt_channel_not_enabled))]\<rparr>,
           tr))"
  by (simp add: SendNotificationByConfig_def TestNotificationChannel_def)

text \<open>An instance: the disabled Feishu channel, dispatched to and tested.\<close>

theorem disabled_channel_rejected_witness:
  "\<not> Enabled (channel ''feishu'' False [(''secretKey'', ''tok'')])
   \<and> SendNotificationByConfig example_env [] (channel ''feishu'' False [(''secretKey'', ''tok'')])
        example_record example_agent = (Some (Err msg_channel_disabled), [])
   \<and> svc_GetValue example_service example_store PropertyIDNotificationChannels
        = Inr example_channels
   \<and> find (\<lambda>x. Type x = ''feishu'') example_channels
        = Some (channel ''feishu'' False [(''secretKey'', ''tok''), (''signSecret'', ''s'')])
   \<and> TestNotificationChannel example_env example_service example_store [] ''feishu''
        = (\<lparr>resp_status = 400,
            resp_body = JObj [(''error'', JStr txt_channel_not_enabled)]\<rparr>, [])"
proof -
  let ?c = "channel ''feishu'' False [(''secretKey'', ''tok'')]"
  let ?t = "channel ''feishu'' False [(''secretKey'', ''tok''), (''signSecret'', ''s'')]"
  have d: "\<not> Enabled ?c" "\<not> Enabled ?t" by (simp_all add: channel_def)
  have f: "find (\<lambda>x. Type x = ''feishu'') example_channels = Some ?t"
    by (simp add: example_channels_def channel_def)
  note T1 = disabled_channel_rejected
    [of ?c example_env "[]" example_record example_agent example_service example_store
        example_channels "''feishu''" ?t, THEN conjunct1, THEN mp, OF d(1)]
  note T2 = disabled_channel_rejected
    [of ?c example_env "[]" example_record example_agent example_service example_store
        example_channels "''feishu''" ?t, THEN conjunct2, THEN mp, OF conjI [OF example_gv conjI [OF f d(2)]]]
  show ?thesis using T1 T2 d f example_gv by simp
qed

subsection \<open>C10: the default system configuration\<close>

text \<open>
  C10. When the get of the property \<open>system_config\<close> fails, \<open>GetSystemConfig\<close> answers
  200 with the default value (English name Pika Monitor, the Chinese name, an empty logo) and
  logs nothing. Its answer has a status other than 200 exactly when the get succeeded with a
  non-empty stored value that does not parse as JSON.
\<close>

theorem system_config_default:
  "(svc_Get svc st PropertyIDSystemConfig = Inl err \<longrightarrow>
      GetSystemConfig env svc st tr
        = (\<lparr>resp_status = 200,
            resp_body = JObj [(''id'', JStr ''system_config''),
                              (''name'', JStr txt_system_config),
                              (''value'', JObj [(''systemNameEn'', JStr ''Pika Monitor''),
                                                (''systemNameZh'', JStr txt_pika_zh),
                                                (''logoBase64'', JStr [])])]\<rparr>,
           tr))
   \<and> (resp_status (fst (GetSystemConfig env svc st tr)) \<noteq> 200 \<longleftrightarrow>
        (\<exists>p e. svc_Get svc st PropertyIDSystemConfig = Inr p \<and> prop_Value p \<noteq> []
               \<and> json_Unmarshal env (prop_Value p) = Inl e))"
  by (auto simp: GetSystemConfig_def PropertyIDSystemConfig_def split: sum.splits)

text \<open>Two instances: an empty store, and a store whose system configuration is the text
  \<open>{oops\<close>.\<close>

theorem system_config_default_witness:
  "svc_Get example_service Map.empty PropertyIDSystemConfig = Inl (Err ''record not found'')
   \<and> GetSystemConfig example_env example_service Map.empty []
        = (\<lparr>resp_status = 200,
            resp_body = JObj [(''id'', JStr ''system_config''),
                              (''name'', JStr txt_system_config),
                              (''value'', JObj [(''systemNameEn'', JStr ''Pika Monitor''),
                                                (''systemNameZh'', JStr txt_pika_zh),
                                                (''logoBase64'', JStr [])])]\<rparr>,
           [])
   \<and> resp_status (fst (GetSystemConfig example_env example_service example_store [])) \<noteq> 200
   \<and> (\<exists>p e. svc_Get example_service example_store PropertyIDSystemConfig = Inr p
              \<and> prop_Value p \<noteq> [] \<and> json_Unmarshal example_env (prop_Value p) = Inl e)"
proof -
  have g: "svc_Get example_service Map.empty PropertyIDSystemConfig
             = Inl (Err ''record not found'')"
    by (simp add: example_service_def spec_PropertyService_def spec_Get_def)
  have s: "svc_Get example_service example_store PropertyIDSystemConfig
             = Inr \<lparr>prop_ID = PropertyIDSystemConfig, prop_Name = ''system'',
                    prop_Value = ''{oops''\<rparr>"
    by (simp add: example_service_def spec_PropertyService_def spec_Get_def example_store_def)
  have u: "json_Unmarshal example_env ''{oops'' = Inl (Err ''invalid character'')"
    by (simp add: example_env_def example_unmarshal_def)
  note A = system_config_default
    [of example_service Map.empty "Err ''record not found''" example_env "[]",
      THEN conjunct1, THEN mp, OF g]
  note B = system_config_default
    [of example_service example_store "Err ''record not found''" example_env "[]",
      THEN conjunct2]
  have "\<exists>p e. svc_Get example_service example_store PropertyIDSystemConfig = Inr p
              \<and> prop_Value p \<noteq> [] \<and> json_Unmarshal example_env (prop_Value p) = Inl e"
    using s u by simp
  with A B g show ?thesis by simp
qed

end
